theory Spec2Isabelle
  imports Complex_Main
begin

section \<open>Python values\<close>

text \<open>
  The views receive JSON request bodies and work on the values \<^verbatim>\<open>json.loads\<close> builds
  from them, so the model starts with those values and with the Python built-ins the
  code applies to them.

  Strings are Isabelle strings: sequences of 8-bit characters, read as Python strings
  whose code points lie below 256. The character classes below are Python's own on that
  range. A Python float is its value, a rational number, or one of the three special
  values; the only operations the code applies to floats are comparison and \<^verbatim>\<open>int()\<close>,
  which are exact, and \<^verbatim>\<open>float()\<close> of an int, which rounds to the nearest binary64
  value and is written out below. An exception is a value of \<open>py_error\<close>, named by its
  class; \<open>ValueError\<close> carries its message (abbreviated where a library writes it),
  \<open>PyException\<close> is the base class raised as such.
\<close>

datatype py_error =
    ValueError string | TypeError | AttributeError | OverflowError | KeyError
  | UnicodeDecodeError | JSONDecodeError | RequestException | PyException
  | DoesNotExist | MultipleObjectsReturned | IntegrityError
  | ValidationError | InvalidOperation

datatype pyfloat = Fin rat | PosInf | NegInf | NaN

datatype json =
    JNull
  | JBool bool
  | JInt int
  | JFloat pyfloat
  | JStr string
  | JArr "json list"
  | JObj "(string \<times> json) list"

text \<open>
  A request body as the view meets it: bytes that do not decode, text that is not JSON,
  or the parsed value.
\<close>

datatype raw_body = Undecodable | NotJson | Parsed json

type_synonym datetime = "int \<times> int \<times> int \<times> int \<times> int \<times> int"

section \<open>Data model (models.py)\<close>

text \<open>
  A row of \<^verbatim>\<open>MPesaPayment\<close>, and the instance the code holds of it. Text columns hold
  strings, \<open>sale\<close> is the optional foreign key, \<open>pk\<close> the primary key. The column
  \<open>amount\<close> is \<^verbatim>\<open>DecimalField(max_digits=10, decimal_places=0)\<close>: what is read from it
  is a decimal with no fractional digits, \<open>DecimalValue n\<close>; what the views assign to the
  attribute is a float, \<open>FloatValue f\<close>, which \<^verbatim>\<open>save()\<close> converts to a decimal.
\<close>

datatype amount_value = DecimalValue int | FloatValue pyfloat

record payment =
  pk :: nat
  sale :: "nat option"
  phone_number :: string
  amount :: amount_value
  checkout_request_id :: string
  merchant_request_id :: string
  mpesa_receipt_number :: string
  transaction_date :: "datetime option"
  status :: string
  result_code :: string
  result_description :: string
  created_at :: int
  updated_at :: int

record product =
  product_id :: nat
  stock :: int

record stock_movement =
  mv_product :: nat
  movement_type :: string
  quantity :: int
  previous_quantity :: int
  new_quantity :: int
  reason :: string
  created_by :: "nat option"

record cart_item =
  item_product :: nat
  item_quantity :: int
  price :: rat

record sale_row =
  sale_id :: nat
  sale_cart :: int
  total_amount :: rat
  payment_method :: string

section \<open>Platform parameters\<close>

text \<open>
  Library and backend behaviour that is not written out here is a parameter of the
  model: \<^verbatim>\<open>str()\<close> of a float, list or dict; \<^verbatim>\<open>float()\<close> of a string;
  \<^verbatim>\<open>datetime.strptime(s, "%Y%m%d%H%M%S")\<close>; \<^verbatim>\<open>base64.b64encode\<close>; the conversion
  of a value that is not an int to an integer key; the conversion of a float assigned
  to \<open>amount\<close> into the decimal the column stores (the rounding, and the exception
  raised for a float that has no such decimal); and whether the database accepts a
  payment row or a sale row on write (column lengths and decimal digits). \<open>None\<close> and
  \<open>Inl\<close> stand for the exception the call raises. Every general theorem below holds for
  all choices.
\<close>

record platform =
  str_other :: "json \<Rightarrow> string"
  float_of_str :: "string \<Rightarrow> pyfloat option"
  strptime :: "string \<Rightarrow> datetime option"
  b64encode :: "string \<Rightarrow> string"
  int_other :: "json \<Rightarrow> py_error + int"
  decimal_of_float :: "pyfloat \<Rightarrow> py_error + int"
  db_accepts :: "payment \<Rightarrow> bool"
  db_accepts_sale :: "sale_row \<Rightarrow> bool"

definition py_isdigit :: "char \<Rightarrow> bool" where
  \<comment> \<open>\<^verbatim>\<open>str.isdigit\<close>: the ASCII digits and the superscripts U+00B2, U+00B3, U+00B9.\<close>
  "py_isdigit c =
     (let n = (of_char c :: nat)
      in (48 \<le> n \<and> n \<le> 57) \<or> n = 178 \<or> n = 179 \<or> n = 185)"

definition py_isspace :: "char \<Rightarrow> bool" where
  \<comment> \<open>\<^verbatim>\<open>str.isspace\<close> below 256.\<close>
  "py_isspace c =
     (let n = (of_char c :: nat)
      in (9 \<le> n \<and> n \<le> 13) \<or> (28 \<le> n \<and> n \<le> 32) \<or> n = 133 \<or> n = 160)"

definition py_strip :: "string \<Rightarrow> string" where
  "py_strip s = rev (dropWhile py_isspace (rev (dropWhile py_isspace s)))"

definition startswith :: "string \<Rightarrow> string \<Rightarrow> bool" where
  "startswith s p = (take (length p) s = p)"

definition digit_char :: "nat \<Rightarrow> char" where
  "digit_char d = ''0123456789'' ! d"

fun digits_of :: "nat \<Rightarrow> string" where
  "digits_of n = (if n < 10 then [digit_char n] else digits_of (n div 10) @ [digit_char (n mod 10)])"

declare digits_of.simps [simp del]

definition show_int :: "int \<Rightarrow> string" where
  \<comment> \<open>\<^verbatim>\<open>str(i)\<close> of an int.\<close>
  "show_int i = (if i < 0 then CHR ''-'' # digits_of (nat (- i)) else digits_of (nat i))"

definition py_str :: "platform \<Rightarrow> json \<Rightarrow> string" where
  "py_str lib v =
     (case v of
        JStr s \<Rightarrow> s
      | JInt i \<Rightarrow> show_int i
      | JBool b \<Rightarrow> (if b then ''True'' else ''False'')
      | JNull \<Rightarrow> ''None''
      | _ \<Rightarrow> str_other lib v)"

definition py_truthy :: "json \<Rightarrow> bool" where
  "py_truthy v =
     (case v of
        JNull \<Rightarrow> False
      | JBool b \<Rightarrow> b
      | JInt i \<Rightarrow> i \<noteq> 0
      | JFloat f \<Rightarrow> f \<noteq> Fin 0
      | JStr s \<Rightarrow> s \<noteq> []
      | JArr xs \<Rightarrow> xs \<noteq> []
      | JObj kvs \<Rightarrow> kvs \<noteq> [])"

definition py_eq_zero :: "json \<Rightarrow> bool" where
  \<comment> \<open>\<^verbatim>\<open>v == 0\<close>: numeric comparison for int, float and bool, False for every other type.\<close>
  "py_eq_zero v =
     (case v of
        JInt i \<Rightarrow> i = 0
      | JFloat f \<Rightarrow> f = Fin 0
      | JBool b \<Rightarrow> \<not> b
      | _ \<Rightarrow> False)"

definition py_get :: "json \<Rightarrow> string \<Rightarrow> json \<Rightarrow> py_error + json" where
  \<comment> \<open>\<^verbatim>\<open>d.get(k, default)\<close>; only a dict has the method.\<close>
  "py_get d k dflt =
     (case d of
        JObj kvs \<Rightarrow> Inr (case map_of kvs k of Some v \<Rightarrow> v | None \<Rightarrow> dflt)
      | _ \<Rightarrow> Inl AttributeError)"

fun bit_length :: "nat \<Rightarrow> nat" where
  \<comment> \<open>\<^verbatim>\<open>n.bit_length()\<close>\<close>
  "bit_length n = (if n = 0 then 0 else Suc (bit_length (n div 2)))"

declare bit_length.simps [simp del]

definition nearest_float :: "nat \<Rightarrow> nat" where
  \<comment> \<open>the binary64 value nearest to a natural number, ties to the even significand: a
      number of at most 53 bits is kept, a longer one is rounded to a multiple of the
      power of two that leaves 53 bits.\<close>
  "nearest_float n =
     (if bit_length n \<le> 53 then n
      else (let q = 2 ^ (bit_length n - 53);
                m = n div q;
                r = n mod q
            in if 2 * r < q then m * q
               else if q < 2 * r then (m + 1) * q
               else if even m then m * q else (m + 1) * q))"

definition float_of_int :: "int \<Rightarrow> py_error + pyfloat" where
  \<comment> \<open>\<^verbatim>\<open>float(i)\<close> of an int: the nearest binary64 value, \<^verbatim>\<open>OverflowError\<close> when that is
      beyond the largest one.\<close>
  "float_of_int i =
     (if nearest_float (nat \<bar>i\<bar>) < 2 ^ 1024
      then Inr (Fin (of_int (sgn i * int (nearest_float (nat \<bar>i\<bar>)))))
      else Inl OverflowError)"

definition py_float :: "platform \<Rightarrow> json \<Rightarrow> py_error + pyfloat" where
  "py_float lib v =
     (case v of
        JInt i \<Rightarrow> float_of_int i
      | JFloat f \<Rightarrow> Inr f
      | JBool b \<Rightarrow> Inr (Fin (if b then 1 else 0))
      | JStr s \<Rightarrow> (case float_of_str lib s of Some f \<Rightarrow> Inr f | None \<Rightarrow> Inl (ValueError ''could not convert string to float''))
      | _ \<Rightarrow> Inl TypeError)"

definition py_int :: "pyfloat \<Rightarrow> py_error + int" where
  \<comment> \<open>\<^verbatim>\<open>int(x)\<close> of a float: truncation toward zero.\<close>
  "py_int f =
     (case f of
        Fin r \<Rightarrow> Inr (if 0 \<le> r then \<lfloor>r\<rfloor> else \<lceil>r\<rceil>)
      | NaN \<Rightarrow> Inl (ValueError ''cannot convert float NaN to integer'')
      | _ \<Rightarrow> Inl OverflowError)"

definition float_le_zero :: "pyfloat \<Rightarrow> bool" where
  \<comment> \<open>\<^verbatim>\<open>x <= 0\<close>\<close>
  "float_le_zero f = (case f of Fin r \<Rightarrow> r \<le> 0 | NegInf \<Rightarrow> True | _ \<Rightarrow> False)"

definition py_slice_to :: "nat \<Rightarrow> json \<Rightarrow> py_error + json" where
  \<comment> \<open>\<^verbatim>\<open>v[:n]\<close>: a str and a list are sliced, every other JSON value raises.\<close>
  "py_slice_to n v =
     (case v of
        JStr s \<Rightarrow> Inr (JStr (take n s))
      | JArr xs \<Rightarrow> Inr (JArr (take n xs))
      | _ \<Rightarrow> Inl TypeError)"

definition py_iter :: "json \<Rightarrow> py_error + json list" where
  \<comment> \<open>the items a \<^verbatim>\<open>for\<close> loop over the value visits: the elements of a list, the keys of
      a dict, the characters of a str; the other values are not iterable.\<close>
  "py_iter v =
     (case v of
        JArr xs \<Rightarrow> Inr xs
      | JObj kvs \<Rightarrow> Inr (map (\<lambda>kv. JStr (fst kv)) kvs)
      | JStr s \<Rightarrow> Inr (map (\<lambda>c. JStr [c]) s)
      | _ \<Rightarrow> Inl TypeError)"

definition py_zfill :: "nat \<Rightarrow> string \<Rightarrow> string" where
  \<comment> \<open>\<^verbatim>\<open>s.zfill(width)\<close>: zeros go after a leading sign.\<close>
  "py_zfill width s =
     (if width \<le> length s then s
      else (case s of
              c # cs \<Rightarrow>
                (if c = CHR ''+'' \<or> c = CHR ''-''
                 then c # replicate (width - length s) CHR ''0'' @ cs
                 else replicate (width - length s) CHR ''0'' @ s)
            | [] \<Rightarrow> replicate width CHR ''0''))"

definition obj_get :: "json \<Rightarrow> string \<Rightarrow> json" where
  \<comment> \<open>\<^verbatim>\<open>d.get(k)\<close> on a value known to be a dict.\<close>
  "obj_get d k = (case py_get d k JNull of Inr v \<Rightarrow> v | Inl e \<Rightarrow> JNull)"

section \<open>Gateway client (services/mpesa\_service.py)\<close>

text \<open>
  \<open>mpesa_config\<close> is \<^verbatim>\<open>settings.MPESA_CONFIG\<close>, with the keys the service reads present
  (the credentials and the environment only choose the URL and the header of the
  requests, which the model does not look into). \<open>network\<close> is what the provider answers in
  one request: \<open>token_outcome\<close> is the result of the body of \<^verbatim>\<open>get_access_token\<close> once
  its GET has been issued (the token it stores and returns, or the exception raised
  there), \<open>push_outcome\<close> the parsed JSON answer to the POST of a payload (or the
  exception of \<^verbatim>\<open>requests.post\<close>, \<^verbatim>\<open>raise_for_status\<close> or \<^verbatim>\<open>response.json\<close>), and
  \<open>clock_stamp\<close> the formatted \<^verbatim>\<open>datetime.now()\<close>. Every request made is logged as a
  \<open>net_call\<close>, in order.
\<close>

record mpesa_config =
  SHORTCODE :: string
  PASSKEY :: string
  CALLBACK_URL :: string

record stk_payload =
  BusinessShortCode :: string
  Password :: string
  Timestamp :: string
  TransactionType :: string
  Amount :: int
  PartyA :: string
  PartyB :: string
  PhoneNumber :: string
  CallBackURL :: string
  AccountReference :: json
  TransactionDesc :: string

datatype net_call = TokenRequest | StkPushRequest json stk_payload

record network =
  token_outcome :: "py_error + json"
  push_outcome :: "stk_payload \<Rightarrow> py_error + json"
  clock_stamp :: string

record mpesa_service =
  access_token :: "json option"
  token_expiry :: "int option"

datatype stk_result =
    StkAccepted json json json json json
  | StkDeclined json json
  | StkFailed py_error

text \<open>
  \<open>StkAccepted\<close> is the dict with \<^verbatim>\<open>'success': True\<close> (checkout\_request\_id,
  merchant\_request\_id, customer\_message, response\_code, response\_description),
  \<open>StkDeclined\<close> the one built from a response code other than \<^verbatim>\<open>'0'\<close> (error,
  response\_code), \<open>StkFailed\<close> the one an \<^verbatim>\<open>except\<close> branch builds from the exception.
\<close>

definition new_service :: mpesa_service where
  "new_service = \<lparr>access_token = None, token_expiry = None\<rparr>"

definition get_access_token ::
  "network \<Rightarrow> int \<Rightarrow> mpesa_service \<Rightarrow> mpesa_service \<times> net_call list \<times> (py_error + json)" where
  "get_access_token net now svc =
     (case token_outcome net of
        Inl e \<Rightarrow> (svc, [TokenRequest], Inl (if e = RequestException then PyException else e))
      | Inr tok \<Rightarrow>
          (svc\<lparr>access_token := Some tok, token_expiry := Some (now + 3500)\<rparr>,
           [TokenRequest], Inr tok))"

definition ensure_token ::
  "network \<Rightarrow> int \<Rightarrow> mpesa_service \<Rightarrow> mpesa_service \<times> net_call list \<times> (py_error + json)" where
  "ensure_token net now svc =
     (case (access_token svc, token_expiry svc) of
        (Some tok, Some expiry) \<Rightarrow>
          (if \<not> py_truthy tok \<or> expiry \<le> now then get_access_token net now svc
           else (svc, [], Inr tok))
      | _ \<Rightarrow> get_access_token net now svc)"

definition generate_password :: "platform \<Rightarrow> mpesa_config \<Rightarrow> network \<Rightarrow> string \<times> string" where
  "generate_password lib cfg net =
     (b64encode lib (SHORTCODE cfg @ PASSKEY cfg @ clock_stamp net), clock_stamp net)"

definition format_phone_number :: "platform \<Rightarrow> json \<Rightarrow> py_error + string" where
  "format_phone_number lib raw =
     (let phone = filter py_isdigit (py_str lib raw)
      in if startswith phone ''0'' then Inr (''254'' @ drop 1 phone)
         else if startswith phone ''254'' then Inr phone
         else if length phone = 9 \<and> startswith phone ''7'' then Inr (''254'' @ phone)
         else Inl (ValueError (''Invalid phone number format: '' @ phone)))"

definition stk_validate :: "platform \<Rightarrow> json \<Rightarrow> json \<Rightarrow> py_error + (int \<times> string)" where
  \<comment> \<open>the first two steps of \<^verbatim>\<open>initiate_stk_push\<close>: the amount, then the phone number.\<close>
  "stk_validate lib phone amt =
     (case py_float lib amt of
        Inl e \<Rightarrow> Inl e
      | Inr f \<Rightarrow>
          (case py_int f of
             Inl e \<Rightarrow> Inl e
           | Inr n \<Rightarrow>
               (if n < 1 then Inl (ValueError ''Amount must be at least KES 1'')
                else (case format_phone_number lib phone of
                        Inl e \<Rightarrow> Inl e
                      | Inr formatted_phone \<Rightarrow> Inr (n, formatted_phone)))))"

definition build_payload ::
  "platform \<Rightarrow> mpesa_config \<Rightarrow> network \<Rightarrow> int \<Rightarrow> string \<Rightarrow> json \<Rightarrow> string \<Rightarrow> stk_payload" where
  "build_payload lib cfg net n formatted_phone ref12 description =
     (case generate_password lib cfg net of
        (password, timestamp) \<Rightarrow>
          \<lparr>BusinessShortCode = SHORTCODE cfg,
           Password = password,
           Timestamp = timestamp,
           TransactionType = ''CustomerPayBillOnline'',
           Amount = n,
           PartyA = formatted_phone,
           PartyB = SHORTCODE cfg,
           PhoneNumber = formatted_phone,
           CallBackURL = CALLBACK_URL cfg,
           AccountReference = ref12,
           TransactionDesc = take 13 description\<rparr>)"

definition read_push_response :: "json \<Rightarrow> py_error + stk_result" where
  \<comment> \<open>the check of the provider's answer.\<close>
  "read_push_response data =
     (case py_get data ''ResponseCode'' JNull of
        Inl e \<Rightarrow> Inl e
      | Inr code \<Rightarrow>
          (if code = JStr ''0''
           then Inr (StkAccepted (obj_get data ''CheckoutRequestID'')
                       (obj_get data ''MerchantRequestID'') (obj_get data ''CustomerMessage'')
                       code (obj_get data ''ResponseDescription''))
           else Inr (StkDeclined (obj_get data ''ResponseDescription'') code)))"

definition stk_send ::
  "platform \<Rightarrow> mpesa_config \<Rightarrow> network \<Rightarrow> int \<Rightarrow> mpesa_service \<Rightarrow> int \<Rightarrow> string \<Rightarrow> json \<Rightarrow> string
     \<Rightarrow> mpesa_service \<times> net_call list \<times> (py_error + stk_result)" where
  \<comment> \<open>the rest of the \<^verbatim>\<open>try\<close> block: token, password, payload, request, answer.\<close>
  "stk_send lib cfg net now svc n formatted_phone reference description =
     (case ensure_token net now svc of
        (svc1, calls1, Inl e) \<Rightarrow> (svc1, calls1, Inl e)
      | (svc1, calls1, Inr token) \<Rightarrow>
          (case py_slice_to 12 reference of
             Inl e \<Rightarrow> (svc1, calls1, Inl e)
           | Inr ref12 \<Rightarrow>
               (let payload = build_payload lib cfg net n formatted_phone ref12 description;
                    calls2 = calls1 @ [StkPushRequest token payload]
                in case push_outcome net payload of
                     Inl e \<Rightarrow> (svc1, calls2, Inl e)
                   | Inr data \<Rightarrow> (svc1, calls2, read_push_response data))))"

definition initiate_stk_push ::
  "platform \<Rightarrow> mpesa_config \<Rightarrow> network \<Rightarrow> int \<Rightarrow> mpesa_service \<Rightarrow> json \<Rightarrow> json \<Rightarrow> json \<Rightarrow> string
     \<Rightarrow> mpesa_service \<times> net_call list \<times> stk_result" where
  "initiate_stk_push lib cfg net now svc phone amt reference description =
     (case stk_validate lib phone amt of
        Inl e \<Rightarrow> (svc, [], StkFailed e)
      | Inr (n, formatted_phone) \<Rightarrow>
          (case stk_send lib cfg net now svc n formatted_phone reference description of
             (svc1, calls, Inl e) \<Rightarrow> (svc1, calls, StkFailed e)
           | (svc1, calls, Inr result) \<Rightarrow> (svc1, calls, result)))"

section \<open>The payment table\<close>

text \<open>
  The table of \<^verbatim>\<open>MPesaPayment\<close> rows is a list. A value written to a text column is
  stored as its \<^verbatim>\<open>str()\<close>, and \<^verbatim>\<open>None\<close> is refused (no column of the model is
  nullable but \<open>sale\<close> and \<open>transaction_date\<close>); \<open>checkout_request_id\<close> is unique. A
  float held in \<open>amount\<close> is converted when the row is written, before the statement
  reaches the database, and the conversion may raise. Any other reason the backend has
  to refuse a row is \<open>db_accepts\<close>. A refused write raises \<open>IntegrityError\<close>.
\<close>

record http_request =
  req_method :: string
  req_body :: raw_body

record store =
  payments :: "payment list"
  carts :: "int list"
  sales :: "sale_row list"
  products :: "product list"
  movements :: "stock_movement list"
  completed :: "int list"

definition db_text :: "platform \<Rightarrow> json \<Rightarrow> string option" where
  \<comment> \<open>the value a text column stores; \<open>None\<close> when the column refuses it.\<close>
  "db_text lib v = (case v of JNull \<Rightarrow> None | _ \<Rightarrow> Some (py_str lib v))"

definition db_int :: "platform \<Rightarrow> json \<Rightarrow> py_error + int" where
  \<comment> \<open>the value of an integer key in a lookup.\<close>
  "db_int lib v = (case v of JInt i \<Rightarrow> Inr i | _ \<Rightarrow> int_other lib v)"

definition objects_get :: "platform \<Rightarrow> payment list \<Rightarrow> json \<Rightarrow> py_error + payment" where
  \<comment> \<open>\<^verbatim>\<open>MPesaPayment.objects.get(checkout_request_id=cid)\<close>\<close>
  "objects_get lib tbl cid =
     (case filter (\<lambda>r. checkout_request_id r = py_str lib cid) tbl of
        [] \<Rightarrow> Inl DoesNotExist
      | [r] \<Rightarrow> Inr r
      | _ \<Rightarrow> Inl MultipleObjectsReturned)"

definition db_amount :: "platform \<Rightarrow> amount_value \<Rightarrow> py_error + int" where
  \<comment> \<open>the decimal written for the attribute \<open>amount\<close>.\<close>
  "db_amount lib a = (case a of DecimalValue n \<Rightarrow> Inr n | FloatValue f \<Rightarrow> decimal_of_float lib f)"

definition db_prep_save :: "platform \<Rightarrow> int \<Rightarrow> payment \<Rightarrow> py_error + payment" where
  \<comment> \<open>the row that saving an instance writes: the amount as a decimal, \<open>updated_at\<close> set
      (\<^verbatim>\<open>auto_now\<close>).\<close>
  "db_prep_save lib now p =
     (case db_amount lib (amount p) of
        Inl e \<Rightarrow> Inl e
      | Inr n \<Rightarrow>
          (let p' = p\<lparr>amount := DecimalValue n, updated_at := now\<rparr>
           in if db_accepts lib p' then Inr p' else Inl IntegrityError))"

definition payment_save :: "platform \<Rightarrow> int \<Rightarrow> payment \<Rightarrow> payment list \<Rightarrow> py_error + payment list" where
  \<comment> \<open>\<^verbatim>\<open>payment.save()\<close>\<close>
  "payment_save lib now p tbl =
     (case db_prep_save lib now p of
        Inl e \<Rightarrow> Inl e
      | Inr p' \<Rightarrow> Inr (map (\<lambda>r. if pk r = pk p' then p' else r) tbl))"

definition fresh_pk :: "payment list \<Rightarrow> nat" where
  "fresh_pk tbl = Suc (fold max (map pk tbl) 0)"

definition payment_create ::
  "platform \<Rightarrow> int \<Rightarrow> string \<Rightarrow> pyfloat \<Rightarrow> json \<Rightarrow> json \<Rightarrow> payment list
     \<Rightarrow> py_error + (payment \<times> payment list)" where
  \<comment> \<open>\<^verbatim>\<open>MPesaPayment.objects.create(phone_number=..., amount=..., checkout_request_id=...,
      merchant_request_id=..., status='pending')\<close>; the other columns take their defaults.
      The result is the instance, which keeps the float, and the table with the new row.\<close>
  "payment_create lib now phone amt cid mid tbl =
     (case decimal_of_float lib amt of
        Inl e \<Rightarrow> Inl e
      | Inr n \<Rightarrow>
          (case (db_text lib cid, db_text lib mid) of
             (Some c, Some m) \<Rightarrow>
               (let p = \<lparr>pk = fresh_pk tbl, sale = None, phone_number = phone,
                          amount = FloatValue amt,
                          checkout_request_id = c, merchant_request_id = m,
                          mpesa_receipt_number = [], transaction_date = None,
                          status = ''pending'', result_code = [], result_description = [],
                          created_at = now, updated_at = now\<rparr>
                in if c \<in> set (map checkout_request_id tbl) \<or>
                      \<not> db_accepts lib (p\<lparr>amount := DecimalValue n\<rparr>)
                   then Inl IntegrityError
                   else Inr (p, tbl @ [p\<lparr>amount := DecimalValue n\<rparr>]))
           | _ \<Rightarrow> Inl IntegrityError))"

section \<open>Initiation (views.initiate\_mpesa\_payment)\<close>

datatype init_response =
    InvalidJson
  | PhoneRequired
  | AmountRequired
  | AmountNotPositive
  | Initiated json json nat
  | PushFailed stk_result
  | ServerError py_error
  | OnlyPost

text \<open>
  One constructor for each \<^verbatim>\<open>JsonResponse\<close> the view returns. \<open>Initiated\<close> carries
  checkout\_request\_id, customer\_message and payment\_id; \<open>PushFailed\<close> the service's
  result, from which the message is taken.
\<close>

definition http_status :: "init_response \<Rightarrow> nat" where
  "http_status r =
     (case r of
        Initiated c m i \<Rightarrow> 200
      | ServerError e \<Rightarrow> 500
      | OnlyPost \<Rightarrow> 405
      | _ \<Rightarrow> 400)"

definition success :: "init_response \<Rightarrow> bool" where
  "success r = (case r of Initiated c m i \<Rightarrow> True | _ \<Rightarrow> False)"

definition link_sale :: "platform \<Rightarrow> int \<Rightarrow> json \<Rightarrow> payment \<Rightarrow> store \<Rightarrow> py_error + store" where
  \<comment> \<open>the block "Try to link to cart/sale": a missing cart or sale is passed over, any
      other exception leaves the block.\<close>
  "link_sale lib now cart_id p st =
     (case db_int lib cart_id of
        Inl e \<Rightarrow> Inl e
      | Inr key \<Rightarrow>
          (if key \<in> set (carts st)
           then (case find (\<lambda>s. sale_cart s = key) (sales st) of
                   Some s \<Rightarrow>
                     (case payment_save lib now (p\<lparr>sale := Some (sale_id s)\<rparr>) (payments st) of
                        Inl e \<Rightarrow> Inl e
                      | Inr tbl \<Rightarrow> Inr (st\<lparr>payments := tbl\<rparr>))
                 | None \<Rightarrow> Inr st)
           else Inr st))"

definition view_reference :: "platform \<Rightarrow> json \<Rightarrow> json \<Rightarrow> json" where
  \<comment> \<open>"Generate reference if cart\_id provided".\<close>
  "view_reference lib cart_id reference =
     (if py_truthy cart_id then JStr (''POS'' @ py_zfill 6 (py_str lib cart_id)) else reference)"

definition initiate_push ::
  "platform \<Rightarrow> mpesa_config \<Rightarrow> network \<Rightarrow> int \<Rightarrow> string \<Rightarrow> pyfloat \<Rightarrow> json \<Rightarrow> json \<Rightarrow> store
     \<Rightarrow> init_response \<times> store \<times> net_call list" where
  \<comment> \<open>the view from "Initialize M-Pesa service" on, with the validated phone and amount.\<close>
  "initiate_push lib cfg net now phone amt cart_id reference st =
     (case initiate_stk_push lib cfg net now new_service (JStr phone) (JFloat amt)
             (view_reference lib cart_id reference) ''Payment for goods/services'' of
        (svc, calls, StkAccepted cid mid msg code desc) \<Rightarrow>
          (case payment_create lib now phone amt cid mid (payments st) of
             Inl e \<Rightarrow> (ServerError e, st, calls)
           | Inr (p, tbl) \<Rightarrow>
               (let st1 = st\<lparr>payments := tbl\<rparr>
                in if py_truthy cart_id
                   then (case link_sale lib now cart_id p st1 of
                           Inl e \<Rightarrow> (ServerError e, st1, calls)
                         | Inr st2 \<Rightarrow> (Initiated cid msg (pk p), st2, calls))
                   else (Initiated cid msg (pk p), st1, calls)))
      | (svc, calls, result) \<Rightarrow> (PushFailed result, st, calls))"

definition initiate_post ::
  "platform \<Rightarrow> mpesa_config \<Rightarrow> network \<Rightarrow> int \<Rightarrow> json \<Rightarrow> store
     \<Rightarrow> init_response \<times> store \<times> net_call list" where
  \<comment> \<open>the view on the parsed body: extraction and validation of the fields.\<close>
  "initiate_post lib cfg net now data st =
     (case py_get data ''phone_number'' (JStr []) of
        Inl e \<Rightarrow> (ServerError e, st, [])
      | Inr (JStr raw) \<Rightarrow>
          (let phone = py_strip raw;
               amt = obj_get data ''amount'';
               cart_id = obj_get data ''cart_id'';
               reference = (case py_get data ''reference'' (JStr ''POS Payment'') of
                              Inr v \<Rightarrow> v | Inl e \<Rightarrow> JNull)
           in if phone = [] then (PhoneRequired, st, [])
              else if \<not> py_truthy amt then (AmountRequired, st, [])
              else (case py_float lib amt of
                      Inl (ValueError m) \<Rightarrow> (AmountNotPositive, st, [])
                    | Inl TypeError \<Rightarrow> (AmountNotPositive, st, [])
                    | Inl e \<Rightarrow> (ServerError e, st, [])
                    | Inr f \<Rightarrow>
                        (if float_le_zero f then (AmountNotPositive, st, [])
                         else initiate_push lib cfg net now phone f cart_id reference st)))
      | Inr v \<Rightarrow> (ServerError AttributeError, st, []))"

definition initiate_mpesa_payment ::
  "platform \<Rightarrow> mpesa_config \<Rightarrow> network \<Rightarrow> int \<Rightarrow> http_request \<Rightarrow> store
     \<Rightarrow> init_response \<times> store \<times> net_call list" where
  "initiate_mpesa_payment lib cfg net now req st =
     (if req_method req = ''POST''
      then (case req_body req of
              Undecodable \<Rightarrow> (ServerError UnicodeDecodeError, st, [])
            | NotJson \<Rightarrow> (InvalidJson, st, [])
            | Parsed data \<Rightarrow> initiate_post lib cfg net now data st)
      else (OnlyPost, st, []))"

section \<open>Callback (views.mpesa\_callback)\<close>

record ack =
  http_code :: nat
  ResultCode :: int
  ResultDesc :: string

definition JsonResponse :: "int \<Rightarrow> string \<Rightarrow> ack" where
  \<comment> \<open>\<^verbatim>\<open>JsonResponse({...})\<close> with no \<^verbatim>\<open>status\<close> argument answers 200.\<close>
  "JsonResponse code desc = \<lparr>http_code = 200, ResultCode = code, ResultDesc = desc\<rparr>"

definition apply_item :: "platform \<Rightarrow> payment \<Rightarrow> json \<Rightarrow> py_error + payment" where
  \<comment> \<open>the body of the loop over the callback metadata.\<close>
  "apply_item lib p item =
     (case py_get item ''Name'' JNull of
        Inl e \<Rightarrow> Inl e
      | Inr name \<Rightarrow>
          (case py_get item ''Value'' JNull of
             Inl e \<Rightarrow> Inl e
           | Inr v \<Rightarrow>
               (if name = JStr ''MpesaReceiptNumber''
                then Inr (p\<lparr>mpesa_receipt_number := py_str lib v\<rparr>)
                else if name = JStr ''Amount''
                then (case py_float lib v of
                        Inl e \<Rightarrow> Inl e
                      | Inr f \<Rightarrow> Inr (p\<lparr>amount := FloatValue f\<rparr>))
                else if name = JStr ''TransactionDate''
                then (case strptime lib (py_str lib v) of
                        Some d \<Rightarrow> Inr (p\<lparr>transaction_date := Some d\<rparr>)
                      | None \<Rightarrow> Inr p)
                else Inr p)))"

fun apply_items :: "platform \<Rightarrow> payment \<Rightarrow> json list \<Rightarrow> py_error + payment" where
  "apply_items lib p [] = Inr p"
| "apply_items lib p (item # items) =
     (case apply_item lib p item of
        Inl e \<Rightarrow> Inl e
      | Inr p' \<Rightarrow> apply_items lib p' items)"

definition save_result :: "platform \<Rightarrow> int \<Rightarrow> json \<Rightarrow> payment \<Rightarrow> payment list \<Rightarrow> py_error + payment list" where
  \<comment> \<open>\<^verbatim>\<open>payment.save()\<close> of a row whose \<open>result_description\<close> was assigned \<open>result_desc\<close>.\<close>
  "save_result lib now result_desc p tbl =
     (case db_text lib result_desc of
        None \<Rightarrow> Inl IntegrityError
      | Some d \<Rightarrow> payment_save lib now (p\<lparr>result_description := d\<rparr>) tbl)"

definition metadata_items :: "json \<Rightarrow> py_error + json list" where
  \<comment> \<open>\<^verbatim>\<open>stk_callback.get('CallbackMetadata', {}).get('Item', [])\<close>, as the loop visits it.\<close>
  "metadata_items stk_callback =
     (case py_get stk_callback ''CallbackMetadata'' (JObj []) of
        Inl e \<Rightarrow> Inl e
      | Inr md \<Rightarrow>
          (case py_get md ''Item'' (JArr []) of
             Inl e \<Rightarrow> Inl e
           | Inr callback_metadata \<Rightarrow> py_iter callback_metadata))"

definition callback_successful ::
  "platform \<Rightarrow> int \<Rightarrow> json \<Rightarrow> json \<Rightarrow> json \<Rightarrow> payment \<Rightarrow> payment list \<Rightarrow> py_error + payment list" where
  \<comment> \<open>the branch \<^verbatim>\<open>result_code == 0\<close>.\<close>
  "callback_successful lib now stk_callback rc result_desc p tbl =
     (let p1 = p\<lparr>status := ''successful'', result_code := py_str lib rc\<rparr>
      in case metadata_items stk_callback of
           Inl e \<Rightarrow> Inl e
         | Inr items \<Rightarrow>
             (case apply_items lib p1 items of
                Inl e \<Rightarrow> Inl e
              | Inr p2 \<Rightarrow> save_result lib now result_desc p2 tbl))"

definition callback_failed ::
  "platform \<Rightarrow> int \<Rightarrow> json \<Rightarrow> json \<Rightarrow> payment \<Rightarrow> payment list \<Rightarrow> py_error + payment list" where
  \<comment> \<open>the \<^verbatim>\<open>else\<close> branch.\<close>
  "callback_failed lib now rc result_desc p tbl =
     save_result lib now result_desc (p\<lparr>status := ''failed'', result_code := py_str lib rc\<rparr>) tbl"

definition stk_callback_of :: "json \<Rightarrow> py_error + json" where
  \<comment> \<open>\<^verbatim>\<open>callback_data.get('Body', {}).get('stkCallback', {})\<close>\<close>
  "stk_callback_of callback_data =
     (case py_get callback_data ''Body'' (JObj []) of
        Inl e \<Rightarrow> Inl e
      | Inr b \<Rightarrow> py_get b ''stkCallback'' (JObj []))"

definition callback_update ::
  "platform \<Rightarrow> int \<Rightarrow> json \<Rightarrow> payment \<Rightarrow> payment list \<Rightarrow> py_error + payment list" where
  \<comment> \<open>"Update payment based on result": the two branches on \<^verbatim>\<open>result_code == 0\<close>.\<close>
  "callback_update lib now stk_callback p tbl =
     (let rc = obj_get stk_callback ''ResultCode'';
          result_desc = obj_get stk_callback ''ResultDesc''
      in if py_eq_zero rc
         then callback_successful lib now stk_callback rc result_desc p tbl
         else callback_failed lib now rc result_desc p tbl)"

definition callback_try :: "platform \<Rightarrow> int \<Rightarrow> json \<Rightarrow> payment list \<Rightarrow> py_error + (ack \<times> payment list)" where
  \<comment> \<open>the \<^verbatim>\<open>try\<close> block on the parsed body; \<open>Inl\<close> is an exception leaving it. Once
      \<^verbatim>\<open>stk_callback.get('CheckoutRequestID')\<close> has returned, \<open>stk_callback\<close> is a dict and
      the later \<^verbatim>\<open>get\<close> calls on it cannot raise.\<close>
  "callback_try lib now callback_data tbl =
     (case stk_callback_of callback_data of
        Inl e \<Rightarrow> Inl e
      | Inr stk_callback \<Rightarrow>
          (case py_get stk_callback ''CheckoutRequestID'' JNull of
             Inl e \<Rightarrow> Inl e
           | Inr checkout_id \<Rightarrow>
               (if \<not> py_truthy checkout_id
                then Inr (JsonResponse 1 ''Missing CheckoutRequestID'', tbl)
                else (case objects_get lib tbl checkout_id of
                        Inl DoesNotExist \<Rightarrow> Inr (JsonResponse 1 ''Payment not found'', tbl)
                      | Inl e \<Rightarrow> Inl e
                      | Inr p \<Rightarrow>
                          (case callback_update lib now stk_callback p tbl of
                             Inl e \<Rightarrow> Inl e
                           | Inr tbl' \<Rightarrow> Inr (JsonResponse 0 ''Success'', tbl'))))))"

definition mpesa_callback :: "platform \<Rightarrow> int \<Rightarrow> http_request \<Rightarrow> payment list \<Rightarrow> ack \<times> payment list" where
  "mpesa_callback lib now req tbl =
     (if req_method req = ''POST''
      then (case req_body req of
              NotJson \<Rightarrow> (JsonResponse 1 ''Invalid JSON'', tbl)
            | Undecodable \<Rightarrow> (JsonResponse 1 ''Processing error'', tbl)
            | Parsed callback_data \<Rightarrow>
                (case callback_try lib now callback_data tbl of
                   Inl e \<Rightarrow> (JsonResponse 1 ''Processing error'', tbl)
                 | Inr r \<Rightarrow> r))
      else (JsonResponse 1 ''Invalid request method'', tbl))"

section \<open>Stock (models.Product.remove\_stock, views.checkout)\<close>

definition product_save :: "product \<Rightarrow> product list \<Rightarrow> product list" where
  "product_save p prods = map (\<lambda>r. if product_id r = product_id p then p else r) prods"

definition remove_stock ::
  "product \<Rightarrow> int \<Rightarrow> string \<Rightarrow> nat option \<Rightarrow> store \<Rightarrow> py_error + (int \<times> store)" where
  "remove_stock self q rsn user st =
     (if stock self < q
      then Inl (ValueError (''Cannot remove '' @ show_int q @ '' items. Only '' @
                            show_int (stock self) @ '' available.''))
      else (let old_stock = stock self;
                self1 = self\<lparr>stock := stock self - q\<rparr>
            in Inr (stock self1,
                    st\<lparr>products := product_save self1 (products st),
                       movements := movements st @
                         [\<lparr>mv_product = product_id self, movement_type = ''out'', quantity = q,
                           previous_quantity = old_stock, new_quantity = stock self1,
                           reason = rsn, created_by = user\<rparr>]\<rparr>)))"

fun update_stock :: "cart_item list \<Rightarrow> product list \<Rightarrow> product list \<times> py_error option" where
  \<comment> \<open>the loop "Update stock" of \<^verbatim>\<open>checkout\<close>; a cart item's product is read from the table.\<close>
  "update_stock [] prods = (prods, None)"
| "update_stock (item # items) prods =
     (case find (\<lambda>p. product_id p = item_product item) prods of
        None \<Rightarrow> (prods, Some DoesNotExist)
      | Some p \<Rightarrow>
          update_stock items (product_save (p\<lparr>stock := stock p - item_quantity item\<rparr>) prods))"

datatype checkout_response = CheckoutDone nat rat | CheckoutRefused

definition cart_total :: "cart_item list \<Rightarrow> rat" where
  "cart_total items = sum_list (map (\<lambda>i. of_int (item_quantity i) * price i) items)"

definition sale_create ::
  "platform \<Rightarrow> int \<Rightarrow> rat \<Rightarrow> json \<Rightarrow> sale_row list \<Rightarrow> py_error + (sale_row \<times> sale_row list)" where
  \<comment> \<open>\<^verbatim>\<open>Sale.objects.create(cart=cart, total_amount=total, payment_method=payment_method)\<close>:
      \<open>payment_method\<close> is a text column that refuses \<^verbatim>\<open>None\<close>, \<open>cart\<close> is one-to-one.\<close>
  "sale_create lib cart amt pm tbl =
     (case db_text lib pm of
        None \<Rightarrow> Inl IntegrityError
      | Some m \<Rightarrow>
          (let s = \<lparr>sale_id = Suc (fold max (map sale_id tbl) 0),
                     sale_cart = cart, total_amount = amt, payment_method = m\<rparr>
           in if cart \<in> set (map sale_cart tbl) \<or> \<not> db_accepts_sale lib s
              then Inl IntegrityError
              else Inr (s, tbl @ [s])))"

definition checkout ::
  "platform \<Rightarrow> http_request \<Rightarrow> int \<Rightarrow> cart_item list \<Rightarrow> store
     \<Rightarrow> (py_error + checkout_response) \<times> store" where
  \<comment> \<open>\<open>cart\<close> and \<open>items\<close> are the session's open cart and its items. No \<^verbatim>\<open>try\<close> here:
      an exception leaves the view, with the writes made so far.\<close>
  "checkout lib req cart items st =
     (if req_method req = ''POST''
      then (case req_body req of
              Parsed data \<Rightarrow>
                (case py_get data ''payment_method'' (JStr ''cash'') of
                   Inl e \<Rightarrow> (Inl e, st)
                 | Inr pm \<Rightarrow>
                     (case sale_create lib cart (cart_total items) pm (sales st) of
                        Inl e \<Rightarrow> (Inl e, st)
                      | Inr (s, tbl) \<Rightarrow>
                          (let st1 = st\<lparr>sales := tbl\<rparr>
                           in case update_stock items (products st1) of
                                (prods, Some e) \<Rightarrow> (Inl e, st1\<lparr>products := prods\<rparr>)
                              | (prods, None) \<Rightarrow>
                                  (Inr (CheckoutDone (sale_id s) (cart_total items)),
                                   st1\<lparr>products := prods, completed := cart # completed st1\<rparr>))))
            | Undecodable \<Rightarrow> (Inl UnicodeDecodeError, st)
            | NotJson \<Rightarrow> (Inl JSONDecodeError, st))
      else (Inr CheckoutRefused, st))"

section \<open>A concrete platform\<close>

text \<open>
  For evaluating the model at concrete inputs, one choice of the parameters. It follows
  the libraries on the values it handles and is narrower than they are elsewhere:

  \<^item> \<^verbatim>\<open>str()\<close> of a float is written out for the whole numbers below \<^verbatim>\<open>1e16\<close> and for the
    special values; for the other floats, for lists and for dicts the empty string
    stands in;
  \<^item> \<^verbatim>\<open>float()\<close> of a string reads a string of ASCII digits and refuses every other
    string (Python also reads signs, a decimal point, an exponent, surrounding
    whitespace);
  \<^item> \<^verbatim>\<open>strptime\<close> reads fourteen ASCII digits that name a date of the calendar and a
    time of day, and refuses every other string (Python also reads fields written
    with one digit);
  \<^item> base64 is the identity, and no value other than an int converts to a key;
  \<^item> a float assigned to \<open>amount\<close> is converted as Django does before it formats the
    decimal itself: \<^verbatim>\<open>create_decimal_from_float\<close> in a context of 10 digits, then
    \<^verbatim>\<open>quantize\<close> to no fractional digit, both rounding half to even;
    \<open>InvalidOperation\<close> when the result has more than 10 digits, \<open>ValidationError\<close> for
    a float that is not finite;
  \<^item> the database enforces the sizes declared in models.py.
\<close>

definition ascii_digit :: "char \<Rightarrow> bool" where
  "ascii_digit c = (48 \<le> (of_char c :: nat) \<and> (of_char c :: nat) \<le> 57)"

definition two_digits :: "string \<Rightarrow> int" where
  "two_digits s = (case s of [a, b] \<Rightarrow> int (of_char a - 48) * 10 + int (of_char b - 48) | _ \<Rightarrow> 0)"

definition days_in_month :: "int \<Rightarrow> int \<Rightarrow> int" where
  "days_in_month y mo =
     (if mo = 2 then (if y mod 4 = 0 \<and> (y mod 100 \<noteq> 0 \<or> y mod 400 = 0) then 29 else 28)
      else if mo = 4 \<or> mo = 6 \<or> mo = 9 \<or> mo = 11 then 30 else 31)"

definition compact14 :: "string \<Rightarrow> datetime option" where
  "compact14 s =
     (if length s = 14 \<and> list_all ascii_digit s
      then (let y = two_digits (take 2 s) * 100 + two_digits (take 2 (drop 2 s));
                mo = two_digits (take 2 (drop 4 s));
                d = two_digits (take 2 (drop 6 s));
                h = two_digits (take 2 (drop 8 s));
                mi = two_digits (take 2 (drop 10 s));
                se = two_digits (take 2 (drop 12 s))
            in if 1 \<le> y \<and> 1 \<le> mo \<and> mo \<le> 12 \<and> 1 \<le> d \<and> d \<le> days_in_month y mo \<and>
                  h < 24 \<and> mi < 60 \<and> se < 60
               then Some (y, mo, d, h, mi, se) else None)
      else None)"

definition float_str :: "json \<Rightarrow> string" where
  "float_str v =
     (case v of
        JFloat (Fin r) \<Rightarrow>
          (if of_int \<lfloor>r\<rfloor> = r \<and> \<bar>r\<bar> < 10 ^ 16 then show_int \<lfloor>r\<rfloor> @ ''.0'' else [])
      | JFloat PosInf \<Rightarrow> ''inf''
      | JFloat NegInf \<Rightarrow> ''-inf''
      | JFloat NaN \<Rightarrow> ''nan''
      | _ \<Rightarrow> [])"

definition digits_value :: "string \<Rightarrow> nat" where
  "digits_value s = fold (\<lambda>c n. 10 * n + (of_char c - 48)) s 0"

definition float_of_digits :: "string \<Rightarrow> pyfloat option" where
  "float_of_digits s =
     (if s \<noteq> [] \<and> list_all ascii_digit s
      then Some (case float_of_int (int (digits_value s)) of Inr f \<Rightarrow> f | Inl e \<Rightarrow> PosInf)
      else None)"

definition round_half_even :: "rat \<Rightarrow> int" where
  "round_half_even r =
     (let n = \<lfloor>r\<rfloor>; d = r - of_int n
      in if d < 1 / 2 then n
         else if 1 / 2 < d then n + 1
         else if even n then n else n + 1)"

definition int_digits :: "rat \<Rightarrow> nat" where
  \<comment> \<open>the number of digits before the decimal point, none for a number below 1.\<close>
  "int_digits r = (if \<bar>r\<bar> < 1 then 0 else length (digits_of (nat \<lfloor>\<bar>r\<bar>\<rfloor>)))"

definition decimal10 :: "pyfloat \<Rightarrow> py_error + int" where
  "decimal10 f =
     (case f of
        Fin r \<Rightarrow>
          (if 10 < int_digits r then Inl InvalidOperation
           else (let scale = 10 ^ (10 - int_digits r);
                     c = of_int (round_half_even (r * scale)) / scale;
                     n = round_half_even c
                 in if \<bar>n\<bar> < 10 ^ 10 then Inr n else Inl InvalidOperation))
      | _ \<Rightarrow> Inl ValidationError)"

definition declared_columns :: "payment \<Rightarrow> bool" where
  "declared_columns p =
     (length (phone_number p) \<le> 15 \<and> length (checkout_request_id p) \<le> 100 \<and>
      length (merchant_request_id p) \<le> 100 \<and> length (mpesa_receipt_number p) \<le> 50 \<and>
      length (status p) \<le> 20 \<and> length (result_code p) \<le> 10 \<and>
      (case amount p of DecimalValue n \<Rightarrow> \<bar>n\<bar> < 10 ^ 10 | FloatValue f \<Rightarrow> False))"

definition declared_sale_columns :: "sale_row \<Rightarrow> bool" where
  "declared_sale_columns s = (length (payment_method s) \<le> 50 \<and> \<bar>total_amount s\<bar> < 10 ^ 8)"

definition std :: platform where
  "std = \<lparr>str_other = float_str, float_of_str = float_of_digits, strptime = compact14,
          b64encode = (\<lambda>s. s), int_other = (\<lambda>v. Inl TypeError),
          decimal_of_float = decimal10, db_accepts = declared_columns,
          db_accepts_sale = declared_sale_columns\<rparr>"

section \<open>Inputs and observers used in the statements\<close>

definition is_object :: "json \<Rightarrow> bool" where
  "is_object v = (case v of JObj kvs \<Rightarrow> True | _ \<Rightarrow> False)"

definition callback_payload :: "http_request \<Rightarrow> json option" where
  \<comment> \<open>the \<^verbatim>\<open>stkCallback\<close> object of a POST whose body the handler can read.\<close>
  "callback_payload req =
     (if req_method req = ''POST''
      then (case req_body req of
              Parsed data \<Rightarrow>
                (case stk_callback_of data of
                   Inr stk \<Rightarrow> (if is_object stk then Some stk else None)
                 | Inl e \<Rightarrow> None)
            | _ \<Rightarrow> None)
      else None)"

definition callback_checkout_id :: "http_request \<Rightarrow> json option" where
  \<comment> \<open>the CheckoutRequestID the handler reads from a request, when it gets that far.\<close>
  "callback_checkout_id req =
     (case callback_payload req of
        Some stk \<Rightarrow> Some (obj_get stk ''CheckoutRequestID'')
      | None \<Rightarrow> None)"

definition pending_row :: payment where
  \<comment> \<open>the row an initiation for 0712345678 and KES 500 leaves, with correlation id ws\_1.\<close>
  "pending_row = \<lparr>pk = 1, sale = None, phone_number = ''0712345678'', amount = DecimalValue 500,
                   checkout_request_id = ''ws_1'', merchant_request_id = ''m_1'',
                   mpesa_receipt_number = [], transaction_date = None,
                   status = ''pending'', result_code = [], result_description = [],
                   created_at = 0, updated_at = 0\<rparr>"

definition callback_request :: "json \<Rightarrow> json \<Rightarrow> json list \<Rightarrow> http_request" where
  \<comment> \<open>a POST of the provider's payload with the given id, result code and metadata items.\<close>
  "callback_request cid rc items =
     \<lparr>req_method = ''POST'',
      req_body = Parsed (JObj [(''Body'', JObj [(''stkCallback'',
        JObj [(''CheckoutRequestID'', cid), (''ResultCode'', rc),
              (''ResultDesc'', JStr ''done''),
              (''CallbackMetadata'', JObj [(''Item'', JArr items)])])])])\<rparr>"

definition item_named :: "string \<Rightarrow> json \<Rightarrow> bool" where
  "item_named n item = (py_get item ''Name'' JNull = Inr (JStr n))"

definition metadata_values :: "string \<Rightarrow> json list \<Rightarrow> json list" where
  \<comment> \<open>the values of the metadata items with a given name, in order.\<close>
  "metadata_values n items = map (\<lambda>i. obj_get i ''Value'') (filter (item_named n) items)"

definition float_ok :: "platform \<Rightarrow> json \<Rightarrow> bool" where
  "float_ok lib v = (case py_float lib v of Inr f \<Rightarrow> True | Inl e \<Rightarrow> False)"

definition items_ok :: "platform \<Rightarrow> json list \<Rightarrow> bool" where
  \<comment> \<open>every item is an object, and the value of every item named Amount converts to a float.\<close>
  "items_ok lib items =
     list_all (\<lambda>i. is_object i \<and>
                 (if item_named ''Amount'' i then float_ok lib (obj_get i ''Value'') else True)) items"

definition last_some :: "('a \<Rightarrow> 'b option) \<Rightarrow> 'a list \<Rightarrow> 'b option" where
  \<comment> \<open>the last element of the list that \<open>f\<close> converts, converted.\<close>
  "last_some f xs = (case List.map_filter f xs of [] \<Rightarrow> None | ys \<Rightarrow> Some (last ys))"

definition receipt_from :: "platform \<Rightarrow> json list \<Rightarrow> string option" where
  "receipt_from lib items =
     last_some (\<lambda>v. Some (py_str lib v)) (metadata_values ''MpesaReceiptNumber'' items)"

definition amount_from :: "platform \<Rightarrow> json list \<Rightarrow> pyfloat option" where
  "amount_from lib items =
     last_some (\<lambda>v. case py_float lib v of Inr f \<Rightarrow> Some f | Inl e \<Rightarrow> None)
       (metadata_values ''Amount'' items)"

definition date_from :: "platform \<Rightarrow> json list \<Rightarrow> datetime option" where
  "date_from lib items =
     last_some (\<lambda>v. strptime lib (py_str lib v)) (metadata_values ''TransactionDate'' items)"

definition with_metadata :: "platform \<Rightarrow> json list \<Rightarrow> payment \<Rightarrow> payment" where
  \<comment> \<open>the three fields taken from the metadata where an item supplies them, kept otherwise.\<close>
  "with_metadata lib items p =
     p\<lparr>mpesa_receipt_number :=
         (case receipt_from lib items of Some r \<Rightarrow> r | None \<Rightarrow> mpesa_receipt_number p),
       amount := (case amount_from lib items of Some f \<Rightarrow> FloatValue f | None \<Rightarrow> amount p),
       transaction_date :=
         (case date_from lib items of Some d \<Rightarrow> Some d | None \<Rightarrow> transaction_date p)\<rparr>"

definition callback_items :: "json \<Rightarrow> py_error + json list" where
  \<comment> \<open>the metadata items the handler visits: those of a payload whose result code equals 0,
      none otherwise.\<close>
  "callback_items stk =
     (if py_eq_zero (obj_get stk ''ResultCode'') then metadata_items stk else Inr [])"

definition assigned_row :: "platform \<Rightarrow> json \<Rightarrow> json list \<Rightarrow> payment \<Rightarrow> payment" where
  \<comment> \<open>the instance the handler saves when it has visited the metadata \<open>items\<close>: the row
      read, with the assignments made to it.\<close>
  "assigned_row lib stk items p =
     (with_metadata lib items
        (p\<lparr>status := (if py_eq_zero (obj_get stk ''ResultCode'') then ''successful'' else ''failed''),
           result_code := py_str lib (obj_get stk ''ResultCode'')\<rparr>))
       \<lparr>result_description := py_str lib (obj_get stk ''ResultDesc'')\<rparr>"

definition replace_row :: "payment \<Rightarrow> payment \<Rightarrow> payment list \<Rightarrow> payment list" where
  \<comment> \<open>the table with \<open>q\<close> in place of the row whose key is that of \<open>p\<close>.\<close>
  "replace_row p q tbl = map (\<lambda>r. if pk r = pk p then q else r) tbl"

definition status_of_code :: "json \<Rightarrow> string" where
  \<comment> \<open>the status the handler assigns for a result code.\<close>
  "status_of_code rc = (if py_eq_zero rc then ''successful'' else ''failed'')"

definition failed_row :: payment where
  \<comment> \<open>\<open>pending_row\<close> after the provider reported 1032 (cancelled by the user).\<close>
  "failed_row = pending_row\<lparr>status := ''failed'', result_code := ''1032'',
                            result_description := ''Request cancelled by user'', updated_at := 5\<rparr>"




definition dated_items :: "json list" where
  \<comment> \<open>metadata with a receipt, the amount 499.5 and a transaction date.\<close>
  "dated_items =
     [JObj [(''Name'', JStr ''MpesaReceiptNumber''), (''Value'', JStr ''ABC123'')],
      JObj [(''Name'', JStr ''Amount''), (''Value'', JFloat (Fin (999 / 2)))],
      JObj [(''Name'', JStr ''TransactionDate''), (''Value'', JInt 20240115123045)]]"

definition dated_callback :: json where
  \<comment> \<open>the \<^verbatim>\<open>stkCallback\<close> object of \<open>callback_request (JStr ''ws_1'') (JInt 0) dated_items\<close>.\<close>
  "dated_callback =
     JObj [(''CheckoutRequestID'', JStr ''ws_1''), (''ResultCode'', JInt 0),
           (''ResultDesc'', JStr ''done''),
           (''CallbackMetadata'', JObj [(''Item'', JArr dated_items)])]"

definition dated_row :: payment where
  \<comment> \<open>\<open>pending_row\<close> after that callback was processed at time 5; the amount 499.5 is
      stored as 500.\<close>
  "dated_row = pending_row\<lparr>mpesa_receipt_number := ''ABC123'',
                          transaction_date := Some (2024, 1, 15, 12, 30, 45),
                          status := ''successful'', result_code := ''0'',
                          result_description := ''done'', updated_at := 5\<rparr>"

fun pushed :: "net_call list \<Rightarrow> stk_payload list" where
  \<comment> \<open>the payloads of the push requests among the calls made.\<close>
  "pushed [] = []"
| "pushed (TokenRequest # cs) = pushed cs"
| "pushed (StkPushRequest tok pl # cs) = pl # pushed cs"

definition accepted_by :: "network \<Rightarrow> stk_payload \<Rightarrow> bool" where
  \<comment> \<open>the provider answers the payload with response code \<^verbatim>\<open>'0'\<close>.\<close>
  "accepted_by net pl =
     (case push_outcome net pl of
        Inr data \<Rightarrow> py_get data ''ResponseCode'' JNull = Inr (JStr ''0'')
      | Inl e \<Rightarrow> False)"

definition cfg0 :: mpesa_config where
  "cfg0 = \<lparr>SHORTCODE = ''174379'', PASSKEY = ''passkey'',
           CALLBACK_URL = ''https://pos.example/mpesa/callback/''\<rparr>"

definition net0 :: network where
  \<comment> \<open>a provider that issues a token and accepts every push with correlation id ws\_1.\<close>
  "net0 = \<lparr>token_outcome = Inr (JStr ''token''),
           push_outcome = (\<lambda>pl. Inr (JObj [(''MerchantRequestID'', JStr ''m_1''),
                                            (''CheckoutRequestID'', JStr ''ws_1''),
                                            (''ResponseCode'', JStr ''0''),
                                            (''ResponseDescription'', JStr ''Success. Request accepted for processing''),
                                            (''CustomerMessage'', JStr ''Success. Request accepted for processing'')])),
           clock_stamp = ''20240115123000''\<rparr>"

definition shop0 :: store where
  \<comment> \<open>a shop with one product (key 1, five in stock), one open cart (key 7), no movements.\<close>
  "shop0 = \<lparr>payments = [], carts = [7], sales = [],
            products = [\<lparr>product_id = 1, stock = 5\<rparr>], movements = [], completed = []\<rparr>"

definition sold_item :: cart_item where
  \<comment> \<open>two units of product 1 at 10.\<close>
  "sold_item = \<lparr>item_product = 1, item_quantity = 2, price = 10\<rparr>"

definition checkout_request :: http_request where
  "checkout_request = \<lparr>req_method = ''POST'', req_body = Parsed (JObj [(''payment_method'', JStr ''cash'')])\<rparr>"

definition init_fields :: "http_request \<Rightarrow> (json \<times> json) option" where
  \<comment> \<open>the \<^verbatim>\<open>phone_number\<close> and \<^verbatim>\<open>amount\<close> the view reads from a POST whose body is a JSON
      object.\<close>
  "init_fields req =
     (if req_method req = ''POST''
      then (case req_body req of
              Parsed (JObj kvs) \<Rightarrow>
                Some (case map_of kvs ''phone_number'' of Some v \<Rightarrow> v | None \<Rightarrow> JStr [],
                      case map_of kvs ''amount'' of Some v \<Rightarrow> v | None \<Rightarrow> JNull)
            | _ \<Rightarrow> None)
      else None)"

definition amount_valid :: "platform \<Rightarrow> json \<Rightarrow> bool" where
  \<comment> \<open>the amount passes the view's checks (present, a number above 0) and the service's
      (at least 1 after \<^verbatim>\<open>int(float(amount))\<close>).\<close>
  "amount_valid lib a =
     (py_truthy a \<and>
      (case py_float lib a of
         Inr f \<Rightarrow> \<not> float_le_zero f \<and> (case py_int f of Inr n \<Rightarrow> 1 \<le> n | Inl e \<Rightarrow> False)
       | Inl e \<Rightarrow> False))"

definition phone_valid :: "platform \<Rightarrow> json \<Rightarrow> bool" where
  \<comment> \<open>the phone passes the view's check (a string, not empty once stripped) and the
      service's (\<^verbatim>\<open>format_phone_number\<close> does not raise).\<close>
  "phone_valid lib v =
     (case v of
        JStr raw \<Rightarrow>
          py_strip raw \<noteq> [] \<and>
          (case format_phone_number lib (JStr (py_strip raw)) of Inr fp \<Rightarrow> True | Inl e \<Rightarrow> False)
      | _ \<Rightarrow> False)"

definition request_valid :: "platform \<Rightarrow> http_request \<Rightarrow> bool" where
  "request_valid lib req =
     (case init_fields req of
        Some (ph, a) \<Rightarrow> phone_valid lib ph \<and> amount_valid lib a
      | None \<Rightarrow> False)"

definition store0 :: store where
  "store0 = \<lparr>payments = [], carts = [], sales = [], products = [], movements = [], completed = []\<rparr>"

definition initiate_request :: "string \<Rightarrow> json \<Rightarrow> http_request" where
  \<comment> \<open>a POST of \<^verbatim>\<open>{"phone_number": ..., "amount": ...}\<close>.\<close>
  "initiate_request phone a =
     \<lparr>req_method = ''POST'',
      req_body = Parsed (JObj [(''phone_number'', JStr phone), (''amount'', a)])\<rparr>"

section \<open>Properties\<close>

subsection \<open>The callback always acknowledges\<close>

lemma payment_save_length: "payment_save lib now p tbl = Inr tbl' \<Longrightarrow> length tbl' = length tbl"
  by (auto simp: payment_save_def split: sum.splits)

lemma save_result_length: "save_result lib now d p tbl = Inr tbl' \<Longrightarrow> length tbl' = length tbl"
  by (auto simp: save_result_def split: option.splits dest: payment_save_length)

lemma callback_update_length: "callback_update lib now stk p tbl = Inr tbl' \<Longrightarrow> length tbl' = length tbl"
  by (auto simp: callback_update_def callback_successful_def callback_failed_def Let_def
      split: if_splits sum.splits dest: save_result_length)

lemma py_get_Inr_object: "py_get v k d = Inr x \<Longrightarrow> is_object v"
  by (cases v) (simp_all add: py_get_def is_object_def)

lemma obj_get_eq: "py_get v k JNull = Inr x \<Longrightarrow> obj_get v k = x"
  by (simp add: obj_get_def)

lemma py_get_of_object: "is_object v \<Longrightarrow> py_get v k JNull = Inr (obj_get v k)"
  by (cases v) (simp_all add: py_get_def obj_get_def is_object_def)

lemma callback_try_cases:
  assumes "callback_try lib now data tbl = Inr (a, tbl')"
  shows "(a = JsonResponse 1 ''Missing CheckoutRequestID'' \<and> tbl' = tbl) \<or>
     (a = JsonResponse 1 ''Payment not found'' \<and> tbl' = tbl) \<or>
     (a = JsonResponse 0 ''Success'' \<and>
        (\<exists>stk p. stk_callback_of data = Inr stk \<and> is_object stk \<and>
           py_truthy (obj_get stk ''CheckoutRequestID'') \<and>
           objects_get lib tbl (obj_get stk ''CheckoutRequestID'') = Inr p \<and>
           callback_update lib now stk p tbl = Inr tbl'))"
proof -
  from assms obtain stk cid where s: "stk_callback_of data = Inr stk"
    and c: "py_get stk ''CheckoutRequestID'' JNull = Inr cid"
    by (auto simp: callback_try_def split: sum.splits)
  have o: "is_object stk" using c by (rule py_get_Inr_object)
  have e: "obj_get stk ''CheckoutRequestID'' = cid" using c by (rule obj_get_eq)
  from assms s c show ?thesis
    by (auto simp: callback_try_def o e split: sum.splits if_splits py_error.splits)
qed

lemma mpesa_callback_cases:
  "mpesa_callback lib now req tbl = (a, tbl') \<Longrightarrow>
     (http_code a = 200 \<and> ResultCode a = 1 \<and> tbl' = tbl) \<or>
     (a = JsonResponse 0 ''Success'' \<and>
        (\<exists>stk p. callback_payload req = Some stk \<and>
           py_truthy (obj_get stk ''CheckoutRequestID'') \<and>
           objects_get lib tbl (obj_get stk ''CheckoutRequestID'') = Inr p \<and>
           callback_update lib now stk p tbl = Inr tbl'))"
  unfolding mpesa_callback_def
  by (auto simp: JsonResponse_def callback_payload_def
      split: if_splits raw_body.splits sum.splits dest!: callback_try_cases)

text \<open>
  C3. Whatever the request, the callback view answers HTTP 200 with a body holding
  \<open>ResultCode\<close> 0 or 1 and keeps the number of rows. When the body is not JSON or does not
  decode, when it has no readable \<^verbatim>\<open>stkCallback\<close> object, when the CheckoutRequestID
  is missing, and when no row has that id, the result code is 1 and the table is
  unchanged.
\<close>

theorem callback_always_acknowledged:
  "http_code (fst (mpesa_callback lib now req tbl)) = 200 \<and>
   (ResultCode (fst (mpesa_callback lib now req tbl)) = 0 \<or>
    ResultCode (fst (mpesa_callback lib now req tbl)) = 1) \<and>
   length (snd (mpesa_callback lib now req tbl)) = length tbl \<and>
   (req_body req = NotJson \<or> req_body req = Undecodable \<or> callback_payload req = None \<or>
    (\<exists>cid. callback_checkout_id req = Some cid \<and>
        (\<not> py_truthy cid \<or> objects_get lib tbl cid = Inl DoesNotExist))
    \<longrightarrow> ResultCode (fst (mpesa_callback lib now req tbl)) = 1 \<and>
        snd (mpesa_callback lib now req tbl) = tbl)"
proof -
  obtain a tbl' where r: "mpesa_callback lib now req tbl = (a, tbl')"
    by (cases "mpesa_callback lib now req tbl")
  from mpesa_callback_cases [OF r]
  show ?thesis
  proof
    assume "http_code a = 200 \<and> ResultCode a = 1 \<and> tbl' = tbl"
    with r show ?thesis by simp
  next
    assume ok: "a = JsonResponse 0 ''Success'' \<and>
        (\<exists>stk p. callback_payload req = Some stk \<and>
           py_truthy (obj_get stk ''CheckoutRequestID'') \<and>
           objects_get lib tbl (obj_get stk ''CheckoutRequestID'') = Inr p \<and>
           callback_update lib now stk p tbl = Inr tbl')"
    then obtain stk p where c: "callback_payload req = Some stk"
      and t: "py_truthy (obj_get stk ''CheckoutRequestID'')"
      and g: "objects_get lib tbl (obj_get stk ''CheckoutRequestID'') = Inr p"
      and u: "callback_update lib now stk p tbl = Inr tbl'"
      by blast
    have b: "req_body req \<noteq> NotJson" "req_body req \<noteq> Undecodable"
      using c by (auto simp: callback_payload_def split: if_splits)
    have cid: "callback_checkout_id req = Some (obj_get stk ''CheckoutRequestID'')"
      using c by (simp add: callback_checkout_id_def)
    have len: "length tbl' = length tbl"
      using u by (rule callback_update_length)
    from ok have a: "http_code a = 200" "ResultCode a = 0"
      by (simp_all add: JsonResponse_def)
    show ?thesis
      using r a len b c cid t g by auto
  qed
qed

lemma payload_of_request:
  "callback_payload (callback_request cid rc items) =
     Some (JObj [(''CheckoutRequestID'', cid), (''ResultCode'', rc), (''ResultDesc'', JStr ''done''),
                 (''CallbackMetadata'', JObj [(''Item'', JArr items)])])"
  by (simp add: callback_payload_def callback_request_def stk_callback_of_def py_get_def
      is_object_def)

lemma checkout_id_of_request [simp]:
  "callback_checkout_id (callback_request cid rc items) = Some cid"
  by (simp add: callback_checkout_id_def payload_of_request obj_get_def py_get_def)

theorem callback_always_acknowledged_witness:
  "objects_get std [pending_row] (JStr ''ws_9'') = Inl DoesNotExist \<and>
   ResultCode (fst (mpesa_callback std 5 (callback_request (JStr ''ws_9'') (JInt 0) []) [pending_row])) = 1 \<and>
   snd (mpesa_callback std 5 (callback_request (JStr ''ws_9'') (JInt 0) []) [pending_row]) = [pending_row] \<and>
   ResultCode (fst (mpesa_callback std 5 \<lparr>req_method = ''POST'', req_body = NotJson\<rparr> [pending_row])) = 1 \<and>
   snd (mpesa_callback std 5 \<lparr>req_method = ''POST'', req_body = NotJson\<rparr> [pending_row]) = [pending_row] \<and>
   ResultCode (fst (mpesa_callback std 5 (callback_request JNull (JInt 0) []) [pending_row])) = 1 \<and>
   snd (mpesa_callback std 5 (callback_request JNull (JInt 0) []) [pending_row]) = [pending_row]"
proof -
  have h: "objects_get std [pending_row] (JStr ''ws_9'') = Inl DoesNotExist"
    by (simp add: objects_get_def pending_row_def py_str_def)
  have n: "\<not> py_truthy JNull"
    by (simp add: py_truthy_def)
  show ?thesis
    using h n
      callback_always_acknowledged [of std 5 "callback_request (JStr ''ws_9'') (JInt 0) []" "[pending_row]"]
      callback_always_acknowledged [of std 5 "\<lparr>req_method = ''POST'', req_body = NotJson\<rparr>" "[pending_row]"]
      callback_always_acknowledged [of std 5 "callback_request JNull (JInt 0) []" "[pending_row]"]
    by simp
qed

subsection \<open>The metadata loop\<close>

lemma last_some_Nil [simp]: "last_some f [] = None"
  by (simp add: last_some_def List.map_filter_simps)

lemma last_some_Cons:
  "last_some f (x # xs) = (case last_some f xs of Some y \<Rightarrow> Some y | None \<Rightarrow> f x)"
  by (cases "f x"; cases "List.map_filter f xs")
     (simp_all add: last_some_def List.map_filter_simps)

lemma metadata_values_Nil [simp]: "metadata_values n [] = []"
  by (simp add: metadata_values_def)

lemma metadata_values_Cons:
  "metadata_values n (i # items) =
     (if item_named n i then obj_get i ''Value'' # metadata_values n items else metadata_values n items)"
  by (simp add: metadata_values_def)

lemma with_metadata_Nil [simp]: "with_metadata lib [] p = p"
  by (simp add: with_metadata_def receipt_from_def amount_from_def date_from_def)

lemma with_metadata_Cons:
  "with_metadata lib (i # items) p = with_metadata lib items (with_metadata lib [i] p)"
  by (simp add: with_metadata_def receipt_from_def amount_from_def date_from_def
      metadata_values_Cons last_some_Cons split: option.splits)

lemma apply_item_ok:
  assumes "is_object i"
    and "item_named ''Amount'' i \<Longrightarrow> float_ok lib (obj_get i ''Value'')"
  shows "apply_item lib p i = Inr (with_metadata lib [i] p)"
proof -
  from assms(1) obtain kvs where i: "i = JObj kvs"
    by (cases i) (simp_all add: is_object_def)
  show ?thesis
  proof (cases "item_named ''Amount'' i")
    case True
    with assms(2) obtain f where f: "py_float lib (obj_get i ''Value'') = Inr f"
      by (auto simp: float_ok_def split: sum.splits)
    with True i show ?thesis
      by (auto simp: apply_item_def with_metadata_def receipt_from_def amount_from_def date_from_def
          metadata_values_Cons last_some_Cons item_named_def py_get_def obj_get_def)
  next
    case False
    with i show ?thesis
      by (auto simp: apply_item_def with_metadata_def receipt_from_def amount_from_def date_from_def
          metadata_values_Cons last_some_Cons item_named_def py_get_def obj_get_def
          split: option.splits)
  qed
qed

lemma apply_item_fails:
  assumes "\<not> (is_object i \<and> (if item_named ''Amount'' i then float_ok lib (obj_get i ''Value'') else True))"
  shows "\<exists>e. apply_item lib p i = Inl e"
  using assms
  by (cases i)
     (auto simp: apply_item_def is_object_def item_named_def py_get_def obj_get_def float_ok_def
       split: sum.splits option.splits if_splits)

lemma apply_items_ok: "items_ok lib items \<Longrightarrow> apply_items lib p items = Inr (with_metadata lib items p)"
proof (induction items arbitrary: p)
  case Nil
  show ?case by simp
next
  case (Cons i items)
  from Cons.prems have i: "is_object i"
    and a: "item_named ''Amount'' i \<Longrightarrow> float_ok lib (obj_get i ''Value'')"
    and rest: "items_ok lib items"
    by (auto simp: items_ok_def split: if_splits)
  have "apply_item lib p i = Inr (with_metadata lib [i] p)"
    using i a by (rule apply_item_ok)
  then show ?case
    using Cons.IH [OF rest] by (simp add: with_metadata_Cons [of lib i items p])
qed

lemma apply_items_fails: "\<not> items_ok lib items \<Longrightarrow> \<exists>e. apply_items lib p items = Inl e"
proof (induction items arbitrary: p)
  case Nil
  then show ?case by (simp add: items_ok_def)
next
  case (Cons i items)
  show ?case
  proof (cases "is_object i \<and> (if item_named ''Amount'' i then float_ok lib (obj_get i ''Value'') else True)")
    case True
    then have "apply_item lib p i = Inr (with_metadata lib [i] p)"
      by (intro apply_item_ok) (auto split: if_splits)
    moreover from True Cons.prems have "\<not> items_ok lib items"
      by (simp add: items_ok_def)
    ultimately show ?thesis
      using Cons.IH by simp
  next
    case False
    then obtain e where "apply_item lib p i = Inl e"
      using apply_item_fails by blast
    then show ?thesis by simp
  qed
qed

subsection \<open>What a processed callback writes\<close>

lemma db_prep_save_InrD:
  assumes "db_prep_save lib now q = Inr w"
  shows "\<exists>n. db_amount lib (amount q) = Inr n \<and>
             w = q\<lparr>amount := DecimalValue n, updated_at := now\<rparr>"
  using assms by (auto simp: db_prep_save_def Let_def split: sum.splits if_splits)

lemma db_prep_save_keeps:
  assumes "db_prep_save lib now q = Inr w"
  shows "pk w = pk q" and "checkout_request_id w = checkout_request_id q"
    and "status w = status q" and "result_code w = result_code q"
    and "result_description w = result_description q"
    and "mpesa_receipt_number w = mpesa_receipt_number q"
    and "transaction_date w = transaction_date q" and "updated_at w = now"
    and "phone_number w = phone_number q" and "sale w = sale q"
  using db_prep_save_InrD [OF assms] by auto

lemma payment_save_Inr_iff:
  "payment_save lib now q tbl = Inr tbl' \<longleftrightarrow>
     (\<exists>w. db_prep_save lib now q = Inr w \<and> tbl' = replace_row q w tbl)"
proof (cases "db_prep_save lib now q")
  case (Inl e)
  then show ?thesis by (simp add: payment_save_def)
next
  case (Inr w)
  have "pk w = pk q" using Inr by (rule db_prep_save_keeps(1))
  with Inr show ?thesis by (auto simp: payment_save_def replace_row_def)
qed

lemma save_result_Inr_iff:
  "save_result lib now rd q tbl = Inr tbl' \<longleftrightarrow>
     rd \<noteq> JNull \<and>
     (\<exists>w. db_prep_save lib now (q\<lparr>result_description := py_str lib rd\<rparr>) = Inr w \<and>
          tbl' = replace_row q w tbl)"
  by (cases rd) (simp_all add: save_result_def db_text_def payment_save_Inr_iff replace_row_def)

lemma pk_with_metadata [simp]: "pk (with_metadata lib items p) = pk p"
  by (simp add: with_metadata_def)

lemma replace_row_cong_pk: "pk p = pk p' \<Longrightarrow> replace_row p q tbl = replace_row p' q tbl"
  by (simp add: replace_row_def)

lemma callback_update_Inr_iff:
  "callback_update lib now stk p tbl = Inr tbl' \<longleftrightarrow>
     (\<exists>items w. callback_items stk = Inr items \<and> items_ok lib items \<and>
        obj_get stk ''ResultDesc'' \<noteq> JNull \<and>
        db_prep_save lib now (assigned_row lib stk items p) = Inr w \<and>
        tbl' = replace_row p w tbl)"
proof (cases "py_eq_zero (obj_get stk ''ResultCode'')")
  case True
  show ?thesis
  proof (cases "metadata_items stk")
    case (Inl e)
    with True show ?thesis
      by (simp add: callback_update_def callback_successful_def callback_items_def)
  next
    case (Inr items)
    show ?thesis
    proof (cases "items_ok lib items")
      case ok: True
      have "apply_items lib (p\<lparr>status := ''successful'', result_code := py_str lib (obj_get stk ''ResultCode'')\<rparr>) items
            = Inr (with_metadata lib items (p\<lparr>status := ''successful'', result_code := py_str lib (obj_get stk ''ResultCode'')\<rparr>))"
        using ok by (rule apply_items_ok)
      with True Inr ok show ?thesis
        by (simp add: callback_update_def callback_successful_def callback_items_def
            save_result_Inr_iff assigned_row_def
            replace_row_cong_pk [of "with_metadata lib items (p\<lparr>status := ''successful'', result_code := py_str lib (obj_get stk ''ResultCode'')\<rparr>)" p])
    next
      case bad: False
      then obtain e where "apply_items lib (p\<lparr>status := ''successful'', result_code := py_str lib (obj_get stk ''ResultCode'')\<rparr>) items = Inl e"
        using apply_items_fails by blast
      with True Inr bad show ?thesis
        by (simp add: callback_update_def callback_successful_def callback_items_def)
    qed
  qed
next
  case False
  then show ?thesis
    by (simp add: callback_update_def callback_failed_def callback_items_def
        save_result_Inr_iff assigned_row_def items_ok_def
        replace_row_cong_pk [of "p\<lparr>status := ''failed'', result_code := py_str lib (obj_get stk ''ResultCode'')\<rparr>" p])
qed

lemma callback_payload_SomeD:
  "callback_payload req = Some stk \<Longrightarrow>
     req_method req = ''POST'' \<and> is_object stk \<and>
     (\<exists>data. req_body req = Parsed data \<and> stk_callback_of data = Inr stk)"
  by (auto simp: callback_payload_def split: if_splits raw_body.splits sum.splits)

lemma mpesa_callback_processed:
  assumes "callback_payload req = Some stk"
    and "py_truthy (obj_get stk ''CheckoutRequestID'')"
    and "objects_get lib tbl (obj_get stk ''CheckoutRequestID'') = Inr p"
    and "callback_items stk = Inr items"
    and "items_ok lib items"
    and "obj_get stk ''ResultDesc'' \<noteq> JNull"
    and "db_prep_save lib now (assigned_row lib stk items p) = Inr w"
  shows "mpesa_callback lib now req tbl = (JsonResponse 0 ''Success'', replace_row p w tbl)"
proof -
  from assms(1) obtain data where m: "req_method req = ''POST''"
    and b: "req_body req = Parsed data" and s: "stk_callback_of data = Inr stk"
    and o: "is_object stk"
    using callback_payload_SomeD by blast
  have c: "py_get stk ''CheckoutRequestID'' JNull = Inr (obj_get stk ''CheckoutRequestID'')"
    using o by (rule py_get_of_object)
  have u: "callback_update lib now stk p tbl = Inr (replace_row p w tbl)"
    unfolding callback_update_Inr_iff
    by (rule exI [of _ items], rule exI [of _ w]) (simp add: assms(4-7))
  show ?thesis
    using m b s c assms(2,3) u by (simp add: mpesa_callback_def callback_try_def)
qed

lemma mpesa_callback_outcome:
  assumes "mpesa_callback lib now req tbl = (a, tbl')"
  shows "(http_code a = 200 \<and> ResultCode a = 1 \<and> tbl' = tbl) \<or>
         (a = JsonResponse 0 ''Success'' \<and>
          (\<exists>stk p items w. callback_payload req = Some stk \<and>
             py_truthy (obj_get stk ''CheckoutRequestID'') \<and>
             objects_get lib tbl (obj_get stk ''CheckoutRequestID'') = Inr p \<and>
             callback_items stk = Inr items \<and> items_ok lib items \<and>
             obj_get stk ''ResultDesc'' \<noteq> JNull \<and>
             db_prep_save lib now (assigned_row lib stk items p) = Inr w \<and>
             tbl' = replace_row p w tbl))"
  using mpesa_callback_cases [OF assms]
proof
  assume "http_code a = 200 \<and> ResultCode a = 1 \<and> tbl' = tbl"
  then show ?thesis by (rule disjI1)
next
  assume "a = JsonResponse 0 ''Success'' \<and>
        (\<exists>stk p. callback_payload req = Some stk \<and>
           py_truthy (obj_get stk ''CheckoutRequestID'') \<and>
           objects_get lib tbl (obj_get stk ''CheckoutRequestID'') = Inr p \<and>
           callback_update lib now stk p tbl = Inr tbl')"
  then obtain stk p where a: "a = JsonResponse 0 ''Success''"
    and c: "callback_payload req = Some stk"
    and t: "py_truthy (obj_get stk ''CheckoutRequestID'')"
    and g: "objects_get lib tbl (obj_get stk ''CheckoutRequestID'') = Inr p"
    and u: "callback_update lib now stk p tbl = Inr tbl'"
    by blast
  from u obtain items w where "callback_items stk = Inr items" "items_ok lib items"
    "obj_get stk ''ResultDesc'' \<noteq> JNull"
    "db_prep_save lib now (assigned_row lib stk items p) = Inr w" "tbl' = replace_row p w tbl"
    unfolding callback_update_Inr_iff by blast
  with a c t g show ?thesis by blast
qed

lemma status_assigned_row:
  "status (assigned_row lib stk items p) =
     (if py_eq_zero (obj_get stk ''ResultCode'') then ''successful'' else ''failed'')"
  by (simp add: assigned_row_def with_metadata_def)

lemmas eval_defs =
  mpesa_callback_def callback_try_def callback_update_def callback_successful_def
  callback_failed_def save_result_def payment_save_def db_prep_save_def db_amount_def
  objects_get_def metadata_items_def
  stk_callback_of_def py_get_def obj_get_def py_truthy_def py_eq_zero_def py_str_def py_iter_def
  db_text_def JsonResponse_def callback_request_def pending_row_def failed_row_def
  std_def declared_columns_def Let_def

subsection \<open>Status after a callback\<close>

text \<open>
  C1 (as amended). The handler has no check of the current status. A callback either is
  answered with result code 1 and changes nothing, or is processed: then the row it
  addresses gets the status that its own result code stands for (\<open>successful\<close> when the
  code equals 0, \<open>failed\<close> otherwise), whatever the status was, and the status of every other
  row is kept. So the status of a terminal row survives a later callback only when that
  callback's result code stands for the same status.
\<close>

theorem callback_sets_status_from_result_code:
  assumes "mpesa_callback lib now req tbl = (a, tbl')"
  shows "(ResultCode a = 1 \<and> tbl' = tbl) \<or>
         (ResultCode a = 0 \<and>
          (\<exists>stk p. callback_payload req = Some stk \<and>
             objects_get lib tbl (obj_get stk ''CheckoutRequestID'') = Inr p \<and>
             map status tbl' =
               map (\<lambda>r. if pk r = pk p then status_of_code (obj_get stk ''ResultCode'') else status r) tbl))"
  using mpesa_callback_outcome [OF assms]
proof
  assume "http_code a = 200 \<and> ResultCode a = 1 \<and> tbl' = tbl"
  then show ?thesis by simp
next
  assume "a = JsonResponse 0 ''Success'' \<and>
          (\<exists>stk p items w. callback_payload req = Some stk \<and>
             py_truthy (obj_get stk ''CheckoutRequestID'') \<and>
             objects_get lib tbl (obj_get stk ''CheckoutRequestID'') = Inr p \<and>
             callback_items stk = Inr items \<and> items_ok lib items \<and>
             obj_get stk ''ResultDesc'' \<noteq> JNull \<and>
             db_prep_save lib now (assigned_row lib stk items p) = Inr w \<and>
             tbl' = replace_row p w tbl)"
  then obtain stk p items w where a: "a = JsonResponse 0 ''Success''"
    and c: "callback_payload req = Some stk"
    and g: "objects_get lib tbl (obj_get stk ''CheckoutRequestID'') = Inr p"
    and s: "db_prep_save lib now (assigned_row lib stk items p) = Inr w"
    and t: "tbl' = replace_row p w tbl"
    by blast
  have sw: "status w = status_of_code (obj_get stk ''ResultCode'')"
    using db_prep_save_keeps(3) [OF s] by (simp add: status_assigned_row status_of_code_def)
  have "map status tbl' =
          map (\<lambda>r. if pk r = pk p then status_of_code (obj_get stk ''ResultCode'') else status r) tbl"
    unfolding t replace_row_def by (simp add: sw)
  with a c g show ?thesis
    by (auto simp: JsonResponse_def)
qed

theorem callback_sets_status_from_result_code_witness:
  "mpesa_callback std 9 (callback_request (JStr ''ws_1'') (JInt 0) []) [failed_row] =
     (JsonResponse 0 ''Success'',
      [failed_row\<lparr>status := ''successful'', result_code := ''0'', result_description := ''done'',
                   updated_at := 9\<rparr>]) \<and>
   (\<exists>stk p. callback_payload (callback_request (JStr ''ws_1'') (JInt 0) []) = Some stk \<and>
      objects_get std [failed_row] (obj_get stk ''CheckoutRequestID'') = Inr p \<and>
      map status [failed_row\<lparr>status := ''successful'', result_code := ''0'',
                   result_description := ''done'', updated_at := 9\<rparr>] =
        map (\<lambda>r. if pk r = pk p then status_of_code (obj_get stk ''ResultCode'') else status r)
          [failed_row])"
proof -
  have h: "mpesa_callback std 9 (callback_request (JStr ''ws_1'') (JInt 0) []) [failed_row] =
     (JsonResponse 0 ''Success'',
      [failed_row\<lparr>status := ''successful'', result_code := ''0'', result_description := ''done'',
                   updated_at := 9\<rparr>])"
    by (simp add: eval_defs show_int_def digits_of.simps digit_char_def)
  show ?thesis
    using h callback_sets_status_from_result_code [OF h] by (simp add: JsonResponse_def)
qed

text \<open>
  C1 as stated fails: a row that is \<open>failed\<close> becomes \<open>successful\<close> when a callback with
  result code 0 arrives for the same id.
\<close>

theorem terminal_status_overwritten:
  "status failed_row = ''failed'' \<and>
   map status (snd (mpesa_callback std 9 (callback_request (JStr ''ws_1'') (JInt 0) []) [failed_row]))
     = [''successful'']"
  by (simp add: eval_defs show_int_def digits_of.simps)

subsection \<open>Duplicate delivery\<close>


lemma assigned_row_key [simp]:
  "pk (assigned_row lib stk items p) = pk p"
  "checkout_request_id (assigned_row lib stk items p) = checkout_request_id p"
  by (simp_all add: assigned_row_def with_metadata_def)












lemma float_of_int_small: "\<bar>i\<bar> < 2 ^ 53 \<Longrightarrow> float_of_int i = Inr (Fin (of_int i))"
proof -
  assume b: "\<bar>i\<bar> < 2 ^ 53"
  have bl: "bit_length n \<le> k" if "n < 2 ^ k" for n k
    using that
  proof (induction n arbitrary: k rule: bit_length.induct)
    case (1 n)
    show ?case
    proof (cases "n = 0")
      case True
      then show ?thesis by (simp add: bit_length.simps)
    next
      case False
      with "1.prems" obtain j where k: "k = Suc j" by (cases k) auto
      with "1.prems" have "n div 2 < 2 ^ j" by auto
      from "1.IH" [OF False this] show ?thesis
        using False k by (simp add: bit_length.simps [of n])
    qed
  qed
  have "nat \<bar>i\<bar> < 2 ^ 53" using b by (simp add: nat_less_iff)
  then have "bit_length (nat \<bar>i\<bar>) \<le> 53" by (rule bl)
  then have n: "nearest_float (nat \<bar>i\<bar>) = nat \<bar>i\<bar>" by (simp add: nearest_float_def)
  have lt: "nat \<bar>i\<bar> < (2::nat) ^ 1024"
    using \<open>nat \<bar>i\<bar> < 2 ^ 53\<close> by (rule less_le_trans) simp
  have "sgn i * int (nat \<bar>i\<bar>) = i" by (simp add: mult_sgn_abs)
  with n lt show ?thesis by (simp add: float_of_int_def)
qed

lemma float_of_int_500 [simp]: "float_of_int 500 = Inr (Fin 500)"
  using float_of_int_small [of 500] by simp

lemma py_float_500 [simp]: "py_float lib (JInt 500) = Inr (Fin 500)"
  by (simp add: py_float_def)

lemma round_half_even_of_int [simp]: "round_half_even (of_int n) = n"
  by (simp add: round_half_even_def)

lemma round_half_even_numeral [simp]: "round_half_even (numeral k) = numeral k"
  using round_half_even_of_int [of "numeral k"] by simp

lemma int_digits_500: "int_digits 500 = 3"
  by (simp add: int_digits_def digits_of.simps)

lemma decimal10_500: "decimal10 (Fin 500) = Inr 500"
  by (simp add: decimal10_def int_digits_500 Let_def)






subsection \<open>The success test\<close>








subsection \<open>The successful transition\<close>

lemma last_some_total:
  "last_some (\<lambda>v. Some (g v)) xs = (if xs = [] then None else Some (g (last xs)))"
  by (induction xs) (simp_all add: last_some_Cons)

lemma last_some_all_None: "(\<forall>x\<in>set xs. f x = None) \<Longrightarrow> last_some f xs = None"
  by (induction xs) (simp_all add: last_some_Cons)

lemma last_some_last: "xs \<noteq> [] \<Longrightarrow> f (last xs) = Some y \<Longrightarrow> last_some f xs = Some y"
proof (induction xs)
  case Nil
  then show ?case by simp
next
  case (Cons x xs)
  show ?case
  proof (cases "xs = []")
    case True
    with Cons.prems show ?thesis by (simp add: last_some_Cons)
  next
    case False
    with Cons.prems have "f (last xs) = Some y" by simp
    with False have "last_some f xs = Some y" by (rule Cons.IH)
    then show ?thesis by (simp add: last_some_Cons)
  qed
qed

lemma items_ok_amounts:
  "items_ok lib items \<Longrightarrow> v \<in> set (metadata_values ''Amount'' items) \<Longrightarrow> float_ok lib v"
  by (auto simp: items_ok_def metadata_values_def list_all_iff split: if_splits)

lemma receipt_with_metadata:
  "mpesa_receipt_number (with_metadata lib items p) =
     (if metadata_values ''MpesaReceiptNumber'' items = [] then mpesa_receipt_number p
      else py_str lib (last (metadata_values ''MpesaReceiptNumber'' items)))"
  by (simp add: with_metadata_def receipt_from_def last_some_total)

lemma amount_with_metadata:
  assumes "items_ok lib items"
  shows "if metadata_values ''Amount'' items = [] then amount (with_metadata lib items p) = amount p
         else (\<exists>f. py_float lib (last (metadata_values ''Amount'' items)) = Inr f \<and>
                    amount (with_metadata lib items p) = FloatValue f)"
proof (cases "metadata_values ''Amount'' items = []")
  case True
  then show ?thesis
    by (simp add: with_metadata_def amount_from_def)
next
  case False
  then have "last (metadata_values ''Amount'' items) \<in> set (metadata_values ''Amount'' items)"
    by simp
  with assms have "float_ok lib (last (metadata_values ''Amount'' items))"
    by (rule items_ok_amounts)
  then obtain f where f: "py_float lib (last (metadata_values ''Amount'' items)) = Inr f"
    by (auto simp: float_ok_def split: sum.splits)
  then have "amount_from lib items = Some f"
    unfolding amount_from_def using False by (intro last_some_last) simp_all
  with False f show ?thesis
    by (simp add: with_metadata_def)
qed

lemma date_with_metadata_unparsed:
  "\<forall>v\<in>set (metadata_values ''TransactionDate'' items). strptime lib (py_str lib v) = None \<Longrightarrow>
   transaction_date (with_metadata lib items p) = transaction_date p"
  by (simp add: with_metadata_def date_from_def last_some_all_None)

lemma date_with_metadata_parsed:
  "metadata_values ''TransactionDate'' items \<noteq> [] \<Longrightarrow>
   strptime lib (py_str lib (last (metadata_values ''TransactionDate'' items))) = Some d \<Longrightarrow>
   transaction_date (with_metadata lib items p) = Some d"
  by (simp add: with_metadata_def date_from_def last_some_last)

lemma assigned_row_fields:
  "mpesa_receipt_number (assigned_row lib stk items p) =
     mpesa_receipt_number (with_metadata lib items p)"
  "amount (assigned_row lib stk items p) = amount (with_metadata lib items p)"
  "transaction_date (assigned_row lib stk items p) = transaction_date (with_metadata lib items p)"
  "result_code (assigned_row lib stk items p) = py_str lib (obj_get stk ''ResultCode'')"
  "result_description (assigned_row lib stk items p) = py_str lib (obj_get stk ''ResultDesc'')"
  by (cases "receipt_from lib items"; cases "amount_from lib items"; cases "date_from lib items";
      simp add: assigned_row_def with_metadata_def)+

text \<open>
  C7 (as amended). A callback whose result code equals 0, that names an existing row,
  carries a ResultDesc, has no metadata or a list of metadata objects in which the value
  of every item named Amount converts to a float, and whose row the save writes (the
  amount converts to the decimal of the column and the database accepts the row), is
  acknowledged with result code 0 and persists the transition: the status is
  \<open>successful\<close>; the receipt is the value of the last item named MpesaReceiptNumber, or is
  kept when there is none; the amount is the float value of the last item named Amount,
  converted to the decimal the column stores, which has no fractional digits, or is
  kept when there is none; the transaction date is kept when no item named
  TransactionDate parses (none present, or every parse fails) and is the parsed value
  of the last such item when that one parses.
\<close>

theorem successful_callback_transition:
  assumes "callback_payload req = Some stk"
    and "py_eq_zero (obj_get stk ''ResultCode'')"
    and "py_truthy (obj_get stk ''CheckoutRequestID'')"
    and "objects_get lib tbl (obj_get stk ''CheckoutRequestID'') = Inr p"
    and "metadata_items stk = Inr items"
    and "items_ok lib items"
    and "obj_get stk ''ResultDesc'' \<noteq> JNull"
    and "db_prep_save lib now (assigned_row lib stk items p) = Inr w"
  shows "mpesa_callback lib now req tbl = (JsonResponse 0 ''Success'', replace_row p w tbl) \<and>
         status w = ''successful'' \<and>
         mpesa_receipt_number w =
           (if metadata_values ''MpesaReceiptNumber'' items = [] then mpesa_receipt_number p
            else py_str lib (last (metadata_values ''MpesaReceiptNumber'' items))) \<and>
         (\<exists>n. amount w = DecimalValue n \<and>
              (if metadata_values ''Amount'' items = [] then db_amount lib (amount p) = Inr n
               else (\<exists>f. py_float lib (last (metadata_values ''Amount'' items)) = Inr f \<and>
                          decimal_of_float lib f = Inr n))) \<and>
         ((\<forall>v\<in>set (metadata_values ''TransactionDate'' items). strptime lib (py_str lib v) = None)
            \<longrightarrow> transaction_date w = transaction_date p) \<and>
         (\<forall>d. metadata_values ''TransactionDate'' items \<noteq> [] \<and>
              strptime lib (py_str lib (last (metadata_values ''TransactionDate'' items))) = Some d
            \<longrightarrow> transaction_date w = Some d)"
proof -
  have i: "callback_items stk = Inr items"
    using assms(2,5) by (simp add: callback_items_def)
  have run: "mpesa_callback lib now req tbl = (JsonResponse 0 ''Success'', replace_row p w tbl)"
    using assms(1,3,4) i assms(6,7,8) by (rule mpesa_callback_processed)
  note k = db_prep_save_keeps [OF assms(8)]
  have st: "status w = ''successful''"
    using k(3) assms(2) by (simp add: status_assigned_row)
  have rn: "mpesa_receipt_number w =
           (if metadata_values ''MpesaReceiptNumber'' items = [] then mpesa_receipt_number p
            else py_str lib (last (metadata_values ''MpesaReceiptNumber'' items)))"
    using k(6) by (simp add: assigned_row_fields receipt_with_metadata)
  from db_prep_save_InrD [OF assms(8)] obtain n where
    a: "db_amount lib (amount (assigned_row lib stk items p)) = Inr n"
    and w: "w = (assigned_row lib stk items p)\<lparr>amount := DecimalValue n, updated_at := now\<rparr>"
    by blast
  have aw: "amount w = DecimalValue n"
    unfolding w by simp
  have am: "if metadata_values ''Amount'' items = [] then db_amount lib (amount p) = Inr n
               else (\<exists>f. py_float lib (last (metadata_values ''Amount'' items)) = Inr f \<and>
                          decimal_of_float lib f = Inr n)"
  proof (cases "metadata_values ''Amount'' items = []")
    case True
    with amount_with_metadata [OF assms(6), of p]
    have "amount (with_metadata lib items p) = amount p" by simp
    with a True show ?thesis by (simp add: assigned_row_fields)
  next
    case False
    with amount_with_metadata [OF assms(6), of p] obtain f where
      f: "py_float lib (last (metadata_values ''Amount'' items)) = Inr f"
      and v: "amount (with_metadata lib items p) = FloatValue f"
      by auto
    from a v have "decimal_of_float lib f = Inr n"
      by (simp add: assigned_row_fields db_amount_def)
    with False f show ?thesis by simp
  qed
  have d1: "(\<forall>v\<in>set (metadata_values ''TransactionDate'' items). strptime lib (py_str lib v) = None)
            \<longrightarrow> transaction_date w = transaction_date p"
    using k(7) by (simp add: assigned_row_fields date_with_metadata_unparsed)
  have d2: "\<forall>d. metadata_values ''TransactionDate'' items \<noteq> [] \<and>
              strptime lib (py_str lib (last (metadata_values ''TransactionDate'' items))) = Some d
            \<longrightarrow> transaction_date w = Some d"
    using k(7) by (simp add: assigned_row_fields date_with_metadata_parsed)
  from aw am have ex: "\<exists>n. amount w = DecimalValue n \<and>
              (if metadata_values ''Amount'' items = [] then db_amount lib (amount p) = Inr n
               else (\<exists>f. py_float lib (last (metadata_values ''Amount'' items)) = Inr f \<and>
                          decimal_of_float lib f = Inr n))"
    by (intro exI conjI)
  from run st rn ex d1 d2 show ?thesis
    by (intro conjI)
qed

lemma show_int_stamp: "show_int 20240115123045 = ''20240115123045''"
  by (simp add: show_int_def digits_of.simps digit_char_def)

lemma compact14_stamp: "compact14 ''20240115123045'' = Some (2024, 1, 15, 12, 30, 45)"
  by (simp add: compact14_def two_digits_def ascii_digit_def days_in_month_def)

lemma int_digits_half: "int_digits (999 / 2) = 3"
proof -
  have "\<lfloor>999 / 2 :: rat\<rfloor> = 499" by (rule floor_unique) simp_all
  then show ?thesis by (simp add: int_digits_def digits_of.simps)
qed

lemma round_half_even_half: "round_half_even (999 / 2) = 500"
proof -
  have "\<lfloor>999 / 2 :: rat\<rfloor> = 499" by (rule floor_unique) simp_all
  then show ?thesis by (simp add: round_half_even_def)
qed

lemma decimal10_half: "decimal10 (Fin (999 / 2)) = Inr 500"
  by (simp add: decimal10_def int_digits_half Let_def round_half_even_half)

lemma dated_assigned_row:
  "assigned_row std dated_callback dated_items pending_row =
     dated_row\<lparr>amount := FloatValue (Fin (999 / 2)), updated_at := 0\<rparr>"
  by (simp add: assigned_row_def with_metadata_def receipt_from_def amount_from_def date_from_def
      last_some_def List.map_filter_simps metadata_values_def item_named_def py_get_def obj_get_def
      dated_callback_def dated_items_def dated_row_def pending_row_def py_eq_zero_def py_str_def
      py_float_def std_def show_int_stamp compact14_stamp
      show_int_def digits_of.simps digit_char_def)

lemma dated_save:
  "db_prep_save std 5 (assigned_row std dated_callback dated_items pending_row) = Inr dated_row"
  unfolding dated_assigned_row
  by (simp add: db_prep_save_def db_amount_def std_def decimal10_half declared_columns_def
      dated_row_def pending_row_def)

theorem successful_callback_transition_witness:
  "callback_payload (callback_request (JStr ''ws_1'') (JInt 0) dated_items) = Some dated_callback \<and>
   objects_get std [pending_row] (JStr ''ws_1'') = Inr pending_row \<and>
   metadata_items dated_callback = Inr dated_items \<and>
   items_ok std dated_items \<and>
   last (metadata_values ''Amount'' dated_items) = JFloat (Fin (999 / 2)) \<and>
   mpesa_callback std 5 (callback_request (JStr ''ws_1'') (JInt 0) dated_items) [pending_row] =
     (JsonResponse 0 ''Success'', [dated_row]) \<and>
   amount dated_row = DecimalValue 500"
proof -
  have g: "obj_get dated_callback ''CheckoutRequestID'' = JStr ''ws_1''"
    "obj_get dated_callback ''ResultCode'' = JInt 0"
    "obj_get dated_callback ''ResultDesc'' = JStr ''done''"
    by (simp_all add: dated_callback_def obj_get_def py_get_def)
  have h1: "callback_payload (callback_request (JStr ''ws_1'') (JInt 0) dated_items) = Some dated_callback"
    by (simp add: payload_of_request dated_callback_def)
  have h2: "py_eq_zero (obj_get dated_callback ''ResultCode'')"
    by (simp add: g py_eq_zero_def)
  have h3: "py_truthy (obj_get dated_callback ''CheckoutRequestID'')"
    by (simp add: g py_truthy_def)
  have h4': "objects_get std [pending_row] (JStr ''ws_1'') = Inr pending_row"
    by (simp add: objects_get_def pending_row_def py_str_def)
  have h4: "objects_get std [pending_row] (obj_get dated_callback ''CheckoutRequestID'') = Inr pending_row"
    using h4' by (simp add: g)
  have h5: "metadata_items dated_callback = Inr dated_items"
    by (simp add: metadata_items_def dated_callback_def py_get_def py_iter_def)
  have h6: "items_ok std dated_items"
    by (simp add: items_ok_def dated_items_def is_object_def item_named_def py_get_def
        obj_get_def float_ok_def py_float_def)
  have h7: "obj_get dated_callback ''ResultDesc'' \<noteq> JNull"
    by (simp add: g)
  have l: "last (metadata_values ''Amount'' dated_items) = JFloat (Fin (999 / 2))"
    by (simp add: metadata_values_def dated_items_def item_named_def py_get_def obj_get_def)
  have a: "amount dated_row = DecimalValue 500"
    by (simp add: dated_row_def pending_row_def)
  from successful_callback_transition [OF h1 h2 h3 h4 h5 h6 h7 dated_save]
  have "mpesa_callback std 5 (callback_request (JStr ''ws_1'') (JInt 0) dated_items) [pending_row] =
     (JsonResponse 0 ''Success'', replace_row pending_row dated_row [pending_row])"
    by (rule conjunct1)
  then have "mpesa_callback std 5 (callback_request (JStr ''ws_1'') (JInt 0) dated_items) [pending_row] =
     (JsonResponse 0 ''Success'', [dated_row])"
    by (simp add: replace_row_def)
  with h1 h4' h5 h6 l a show ?thesis by simp
qed

text \<open>
  C7 as stated fails: a callback with result code 0 whose Amount item carries a value
  that \<^verbatim>\<open>float()\<close> rejects is answered with result code 1 and the pending row is left as
  it was.
\<close>

theorem unconvertible_amount_aborts_transition:
  "py_eq_zero (JInt 0) \<and>
   mpesa_callback std 5
     (callback_request (JStr ''ws_1'') (JInt 0) [JObj [(''Name'', JStr ''Amount''), (''Value'', JNull)]])
     [pending_row] = (JsonResponse 1 ''Processing error'', [pending_row]) \<and>
   status pending_row = ''pending''"
  by (simp add: eval_defs apply_item_def py_float_def)

subsection \<open>The push request\<close>

lemma pushed_append [simp]: "pushed (xs @ ys) = pushed xs @ pushed ys"
  by (induction xs rule: pushed.induct) simp_all

lemma get_access_token_calls:
  "get_access_token net now svc = (svc', calls, r) \<Longrightarrow> calls = [TokenRequest]"
  by (auto simp: get_access_token_def split: sum.splits)

lemma ensure_token_calls:
  "ensure_token net now svc = (svc', calls, r) \<Longrightarrow> pushed calls = []"
  by (auto simp: ensure_token_def split: option.splits if_splits dest: get_access_token_calls)

lemma stk_send_pushed:
  assumes "stk_send lib cfg net now svc n fp reference description = (svc', calls, r)"
  shows "(pushed calls = [] \<and> (\<exists>e. r = Inl e)) \<or>
         (\<exists>r12. py_slice_to 12 reference = Inr r12 \<and>
            pushed calls = [build_payload lib cfg net n fp r12 description] \<and>
            r = (case push_outcome net (build_payload lib cfg net n fp r12 description) of
                   Inl e \<Rightarrow> Inl e | Inr data \<Rightarrow> read_push_response data))"
proof -
  obtain svc1 calls1 tok where e: "ensure_token net now svc = (svc1, calls1, tok)"
    by (cases "ensure_token net now svc")
  have c1: "pushed calls1 = []" using e by (rule ensure_token_calls)
  show ?thesis
    using assms e c1
    by (auto simp: stk_send_def Let_def split: sum.splits)
qed

lemma build_payload_fields [simp]:
  "Amount (build_payload lib cfg net n fp r12 description) = n"
  "PartyA (build_payload lib cfg net n fp r12 description) = fp"
  "PhoneNumber (build_payload lib cfg net n fp r12 description) = fp"
  "AccountReference (build_payload lib cfg net n fp r12 description) = r12"
  "TransactionDesc (build_payload lib cfg net n fp r12 description) = take 13 description"
  by (simp_all add: build_payload_def generate_password_def)

lemma stk_validate_Inr_iff:
  "stk_validate lib phone amt = Inr (n, fp) \<longleftrightarrow>
     (\<exists>f. py_float lib amt = Inr f \<and> py_int f = Inr n \<and> 1 \<le> n \<and>
          format_phone_number lib phone = Inr fp)"
  by (auto simp: stk_validate_def split: sum.splits if_splits)

lemma initiate_stk_push_invalid:
  "stk_validate lib phone amt = Inl e \<Longrightarrow>
   initiate_stk_push lib cfg net now svc phone amt reference description = (svc, [], StkFailed e)"
  by (simp add: initiate_stk_push_def)

lemma initiate_stk_push_valid:
  assumes "stk_validate lib phone amt = Inr (n, fp)"
    and "initiate_stk_push lib cfg net now svc phone amt reference description = (svc', calls, result)"
  shows "(pushed calls = [] \<and> (\<exists>e. result = StkFailed e)) \<or>
         (\<exists>r12. py_slice_to 12 reference = Inr r12 \<and>
            pushed calls = [build_payload lib cfg net n fp r12 description] \<and>
            (case push_outcome net (build_payload lib cfg net n fp r12 description) of
               Inl e \<Rightarrow> result = StkFailed e
             | Inr data \<Rightarrow> (case read_push_response data of
                              Inl e \<Rightarrow> result = StkFailed e | Inr res \<Rightarrow> result = res)))"
proof -
  obtain svc1 calls1 r where s: "stk_send lib cfg net now svc n fp reference description = (svc1, calls1, r)"
    by (cases "stk_send lib cfg net now svc n fp reference description")
  from assms s have c: "calls = calls1" and res: "result = (case r of Inl e \<Rightarrow> StkFailed e | Inr x \<Rightarrow> x)"
    by (auto simp: initiate_stk_push_def split: sum.splits)
  from stk_send_pushed [OF s] show ?thesis
    unfolding c res by (auto split: sum.splits)
qed

lemma py_slice_to_str: "py_slice_to n (JStr s) = Inr (JStr (take n s))"
  by (simp add: py_slice_to_def)

lemma py_int_Fin: "py_int (Fin r) = Inr (if 0 \<le> r then \<lfloor>r\<rfloor> else \<lceil>r\<rceil>)"
  by (simp add: py_int_def)

lemma py_int_InrD: "py_int f = Inr n \<Longrightarrow> \<exists>r. f = Fin r"
  by (cases f) (simp_all add: py_int_def)

lemma truncated_below_one: "(if 0 \<le> r then \<lfloor>r\<rfloor> else \<lceil>r\<rceil>) < 1 \<longleftrightarrow> r < (1::rat)"
proof (cases "0 \<le> r")
  case True
  then show ?thesis by (simp add: floor_less_iff)
next
  case False
  then have "\<lceil>r\<rceil> \<le> 0" by (simp add: ceiling_le_iff)
  with False show ?thesis by simp
qed

lemma stk_validate_finite:
  "py_float lib amt = Inr (Fin r) \<Longrightarrow>
   stk_validate lib phone amt =
     (if r < 1 then Inl (ValueError ''Amount must be at least KES 1'')
      else (case format_phone_number lib phone of
              Inl e \<Rightarrow> Inl e
            | Inr fp \<Rightarrow> Inr (\<lfloor>r\<rfloor>, fp)))"
  using truncated_below_one [of r]
  by (auto simp: stk_validate_def py_int_Fin split: sum.splits)

lemma stk_validate_InrD:
  assumes "stk_validate lib phone amt = Inr (n, fp)"
  shows "\<exists>r. py_float lib amt = Inr (Fin r) \<and> 1 \<le> r \<and> n = \<lfloor>r\<rfloor>"
proof -
  from assms obtain f where f: "py_float lib amt = Inr f" and n: "py_int f = Inr n"
    by (auto simp: stk_validate_Inr_iff)
  from py_int_InrD [OF n] obtain r where r: "f = Fin r" by blast
  from assms stk_validate_finite [OF f [unfolded r], of phone] show ?thesis
    using f r by (auto split: if_splits sum.splits)
qed

lemma stk_send_run:
  assumes "ensure_token net now svc = (svc1, calls1, Inr tok)"
    and "py_slice_to 12 reference = Inr r12"
  shows "stk_send lib cfg net now svc n fp reference description =
           (svc1, calls1 @ [StkPushRequest tok (build_payload lib cfg net n fp r12 description)],
            case push_outcome net (build_payload lib cfg net n fp r12 description) of
              Inl e \<Rightarrow> Inl e
            | Inr data \<Rightarrow> read_push_response data)"
  using assms by (simp add: stk_send_def Let_def split: sum.splits)

lemma initiate_stk_push_run:
  assumes "stk_validate lib phone amt = Inr (n, fp)"
    and "ensure_token net now svc = (svc1, calls1, Inr tok)"
    and "py_slice_to 12 reference = Inr r12"
  shows "initiate_stk_push lib cfg net now svc phone amt reference description =
           (svc1, calls1 @ [StkPushRequest tok (build_payload lib cfg net n fp r12 description)],
            case push_outcome net (build_payload lib cfg net n fp r12 description) of
              Inl e \<Rightarrow> StkFailed e
            | Inr data \<Rightarrow> (case read_push_response data of
                             Inl e \<Rightarrow> StkFailed e | Inr res \<Rightarrow> res))"
  using assms(1) stk_send_run [OF assms(2,3), of lib cfg n fp description]
  by (simp add: initiate_stk_push_def split: sum.splits)

text \<open>
  \<^verbatim>\<open>float()\<close> of an int that has more than 53 bits rounds it: \<^verbatim>\<open>float(2**53 + 1)\<close> is
  \<^verbatim>\<open>2.0**53\<close>, so \<^verbatim>\<open>int(float(amount))\<close> of such an int is not the int itself.
\<close>

lemma bit_length_example: "bit_length 9007199254740993 = 54"
  by (simp add: bit_length.simps)

lemma float_of_int_rounds: "float_of_int 9007199254740993 = Inr (Fin 9007199254740992)"
  by (simp add: float_of_int_def nearest_float_def bit_length_example Let_def)

text \<open>
  C8 (as amended). \<^verbatim>\<open>initiate_stk_push\<close> converts the amount with \<^verbatim>\<open>int(float(amount))\<close>:
  it takes the float value of the amount and drops its fractional part. When the float
  value is below 1 the request is refused with "Amount must be at least KES 1" and
  nothing is sent; nothing is sent either when the amount has no finite float value
  (\<^verbatim>\<open>float()\<close> or \<^verbatim>\<open>int()\<close> raises). When it is at least 1, whole or not, the phone number is valid, a
  token is obtained and the reference can be sliced, exactly one payload is sent: it
  carries the float value rounded down to a whole number as the amount, the
  normalised phone, the reference cut to its first 12 characters and the description
  cut to its first 13, and the result is read from the provider's answer to it. And
  every payload that is sent, in any run, carries such an amount, reference and
  description.
\<close>

theorem push_request_amount_and_truncation:
  assumes "initiate_stk_push lib cfg net now svc phone amt reference description = (svc', calls, result)"
  shows "(\<forall>r. py_float lib amt = Inr (Fin r) \<and> r < 1 \<longrightarrow>
            calls = [] \<and> result = StkFailed (ValueError ''Amount must be at least KES 1'')) \<and>
         ((\<forall>r. py_float lib amt \<noteq> Inr (Fin r)) \<longrightarrow>
            calls = [] \<and> (\<exists>e. result = StkFailed e)) \<and>
         (\<forall>r fp svc1 calls1 tok r12.
            py_float lib amt = Inr (Fin r) \<and> 1 \<le> r \<and>
            format_phone_number lib phone = Inr fp \<and>
            ensure_token net now svc = (svc1, calls1, Inr tok) \<and>
            py_slice_to 12 reference = Inr r12
            \<longrightarrow> (\<exists>pl. calls = calls1 @ [StkPushRequest tok pl] \<and> pushed calls = [pl] \<and>
                      Amount pl = \<lfloor>r\<rfloor> \<and> PartyA pl = fp \<and> PhoneNumber pl = fp \<and>
                      AccountReference pl = r12 \<and>
                      TransactionDesc pl = take 13 description \<and>
                      result = (case push_outcome net pl of
                                  Inl e \<Rightarrow> StkFailed e
                                | Inr data \<Rightarrow> (case read_push_response data of
                                                 Inl e \<Rightarrow> StkFailed e | Inr res \<Rightarrow> res)))) \<and>
         (\<forall>pl\<in>set (pushed calls).
            (\<exists>r. py_float lib amt = Inr (Fin r) \<and> 1 \<le> r \<and> Amount pl = \<lfloor>r\<rfloor>) \<and>
            py_slice_to 12 reference = Inr (AccountReference pl) \<and>
            (\<forall>ref. reference = JStr ref \<longrightarrow> AccountReference pl = JStr (take 12 ref)) \<and>
            TransactionDesc pl = take 13 description)"
proof (intro conjI allI impI ballI)
  fix r
  assume h: "py_float lib amt = Inr (Fin r) \<and> r < 1"
  then have "stk_validate lib phone amt = Inl (ValueError ''Amount must be at least KES 1'')"
    by (simp add: stk_validate_finite)
  from initiate_stk_push_invalid [OF this, of cfg net now svc reference description] assms
  show "calls = []" and "result = StkFailed (ValueError ''Amount must be at least KES 1'')"
    by simp_all
next
  assume h: "\<forall>r. py_float lib amt \<noteq> Inr (Fin r)"
  have "\<exists>e. stk_validate lib phone amt = Inl e"
  proof (cases "stk_validate lib phone amt")
    case (Inl e)
    then show ?thesis by blast
  next
    case (Inr v)
    obtain n fp where "stk_validate lib phone amt = Inr (n, fp)"
      using Inr by (cases v) simp
    from stk_validate_InrD [OF this] h show ?thesis by blast
  qed
  then obtain e where e: "stk_validate lib phone amt = Inl e" by blast
  from initiate_stk_push_invalid [OF e, of cfg net now svc reference description] assms
  show "calls = []" and "\<exists>e. result = StkFailed e"
    by simp_all
next
  fix r fp svc1 calls1 tok r12
  assume h: "py_float lib amt = Inr (Fin r) \<and> 1 \<le> r \<and>
            format_phone_number lib phone = Inr fp \<and>
            ensure_token net now svc = (svc1, calls1, Inr tok) \<and>
            py_slice_to 12 reference = Inr r12"
  then have v: "stk_validate lib phone amt = Inr (\<lfloor>r\<rfloor>, fp)"
    by (simp add: stk_validate_finite)
  from h have e: "ensure_token net now svc = (svc1, calls1, Inr tok)"
    and s: "py_slice_to 12 reference = Inr r12" by simp_all
  have c1: "pushed calls1 = []" using e by (rule ensure_token_calls)
  let ?pl = "build_payload lib cfg net \<lfloor>r\<rfloor> fp r12 description"
  from initiate_stk_push_run [OF v e s, of cfg description] assms
  have c: "calls = calls1 @ [StkPushRequest tok ?pl]"
    and res: "result = (case push_outcome net ?pl of
                                  Inl e \<Rightarrow> StkFailed e
                                | Inr data \<Rightarrow> (case read_push_response data of
                                                 Inl e \<Rightarrow> StkFailed e | Inr res \<Rightarrow> res))"
    by simp_all
  have p: "pushed calls = [?pl]"
    unfolding c by (simp add: c1)
  from c p res show "\<exists>pl. calls = calls1 @ [StkPushRequest tok pl] \<and> pushed calls = [pl] \<and>
                      Amount pl = \<lfloor>r\<rfloor> \<and> PartyA pl = fp \<and> PhoneNumber pl = fp \<and>
                      AccountReference pl = r12 \<and>
                      TransactionDesc pl = take 13 description \<and>
                      result = (case push_outcome net pl of
                                  Inl e \<Rightarrow> StkFailed e
                                | Inr data \<Rightarrow> (case read_push_response data of
                                                 Inl e \<Rightarrow> StkFailed e | Inr res \<Rightarrow> res))"
    by (intro exI [of _ ?pl] conjI) simp_all
next
  fix pl
  assume m: "pl \<in> set (pushed calls)"
  have sent: "\<exists>n fp r12. stk_validate lib phone amt = Inr (n, fp) \<and>
                py_slice_to 12 reference = Inr r12 \<and>
                pl = build_payload lib cfg net n fp r12 description"
  proof (cases "stk_validate lib phone amt")
    case (Inl e)
    from initiate_stk_push_invalid [OF Inl, of cfg net now svc reference description] assms m
    show ?thesis by simp
  next
    case (Inr v)
    obtain n fp where ok: "stk_validate lib phone amt = Inr (n, fp)"
      using Inr by (cases v) simp
    from initiate_stk_push_valid [OF ok assms] m ok show ?thesis
      by auto
  qed
  then obtain n fp r12 where v: "stk_validate lib phone amt = Inr (n, fp)"
    and s: "py_slice_to 12 reference = Inr r12"
    and pl: "pl = build_payload lib cfg net n fp r12 description"
    by blast
  from stk_validate_InrD [OF v] pl
  show "\<exists>r. py_float lib amt = Inr (Fin r) \<and> 1 \<le> r \<and> Amount pl = \<lfloor>r\<rfloor>"
    by auto
  from s pl show "py_slice_to 12 reference = Inr (AccountReference pl)"
    by simp
  from pl show "TransactionDesc pl = take 13 description"
    by simp
  fix ref
  assume "reference = JStr ref"
  with s pl show "AccountReference pl = JStr (take 12 ref)"
    by (simp add: py_slice_to_str)
qed

lemmas push_eval_defs =
  initiate_stk_push_def stk_validate_def stk_send_def ensure_token_def get_access_token_def
  new_service_def build_payload_def generate_password_def read_push_response_def
  format_phone_number_def startswith_def py_isdigit_def py_float_def py_int_def
  py_slice_to_def py_get_def obj_get_def py_str_def net0_def cfg0_def std_def Let_def

lemma floor_three_halves: "\<lfloor>3 / 2 :: rat\<rfloor> = 1"
  by (rule floor_unique) simp_all

lemma floor_five_halves: "\<lfloor>5 / 2 :: rat\<rfloor> = 2"
  by (rule floor_unique) simp_all

theorem push_request_amount_and_truncation_witness:
  "length ''POS-REFERENCE-000020'' = 20 \<and>
   map Amount (pushed (fst (snd (initiate_stk_push std cfg0 net0 0 new_service
      (JStr ''0712345678'') (JFloat (Fin (5 / 2))) (JStr ''POS-REFERENCE-000020'')
      ''Payment for goods/services'')))) = [2] \<and>
   map AccountReference (pushed (fst (snd (initiate_stk_push std cfg0 net0 0 new_service
      (JStr ''0712345678'') (JFloat (Fin (5 / 2))) (JStr ''POS-REFERENCE-000020'')
      ''Payment for goods/services'')))) = [JStr ''POS-REFERENC''] \<and>
   map TransactionDesc (pushed (fst (snd (initiate_stk_push std cfg0 net0 0 new_service
      (JStr ''0712345678'') (JFloat (Fin (5 / 2))) (JStr ''POS-REFERENCE-000020'')
      ''Payment for goods/services'')))) = [''Payment for g''] \<and>
   snd (initiate_stk_push std cfg0 net0 0 new_service
      (JStr ''0712345678'') (JFloat (Fin (1 / 2))) (JStr ''POS Payment'') ''Goods/Services'') =
     ([], StkFailed (ValueError ''Amount must be at least KES 1'')) \<and>
   fst (snd (initiate_stk_push std cfg0 net0 0 new_service
      (JStr ''0712345678'') (JFloat NaN) (JStr ''POS Payment'') ''Goods/Services'')) = []"
proof -
  let ?run = "initiate_stk_push std cfg0 net0 0 new_service
      (JStr ''0712345678'') (JFloat (Fin (5 / 2))) (JStr ''POS-REFERENCE-000020'')
      ''Payment for goods/services''"
  let ?low = "initiate_stk_push std cfg0 net0 0 new_service
      (JStr ''0712345678'') (JFloat (Fin (1 / 2))) (JStr ''POS Payment'') ''Goods/Services''"
  have h: "?run = (fst ?run, fst (snd ?run), snd (snd ?run))"
    by simp
  have l: "?low = (fst ?low, fst (snd ?low), snd (snd ?low))"
    by simp
  let ?nan = "initiate_stk_push std cfg0 net0 0 new_service
      (JStr ''0712345678'') (JFloat NaN) (JStr ''POS Payment'') ''Goods/Services''"
  have n: "?nan = (fst ?nan, fst (snd ?nan), snd (snd ?nan))"
    by simp
  have nf: "\<forall>r. py_float std (JFloat NaN) \<noteq> Inr (Fin r)"
    by (simp add: py_float_def)
  from push_request_amount_and_truncation [OF n] nf
  have none: "fst (snd ?nan) = []"
    by blast
  have f: "py_float std (JFloat (Fin x)) = Inr (Fin x)" for x
    by (simp add: py_float_def)
  have ph: "format_phone_number std (JStr ''0712345678'') = Inr ''254712345678''"
    by (simp add: format_phone_number_def startswith_def py_isdigit_def py_str_def)
  have tk: "ensure_token net0 0 new_service =
              (new_service\<lparr>access_token := Some (JStr ''token''), token_expiry := Some 3500\<rparr>,
               [TokenRequest], Inr (JStr ''token''))"
    by (simp add: ensure_token_def get_access_token_def new_service_def net0_def)
  have sl: "py_slice_to 12 (JStr ''POS-REFERENCE-000020'') = Inr (JStr ''POS-REFERENC'')"
    by (simp add: py_slice_to_def)
  have big: "(1::rat) \<le> 5 / 2" and small: "(1 / 2 :: rat) < 1"
    by simp_all
  from push_request_amount_and_truncation [OF h] f [of "5 / 2"] big ph tk sl
  obtain pl where one: "pushed (fst (snd ?run)) = [pl]"
    and a: "Amount pl = \<lfloor>5 / 2 :: rat\<rfloor>"
    and r: "AccountReference pl = JStr ''POS-REFERENC''"
    and d: "TransactionDesc pl = take 13 ''Payment for goods/services''"
    by blast
  from push_request_amount_and_truncation [OF l] f [of "1 / 2"] small
  have low: "fst (snd ?low) = [] \<and>
             snd (snd ?low) = StkFailed (ValueError ''Amount must be at least KES 1'')"
    by blast
  then have low': "snd ?low = ([], StkFailed (ValueError ''Amount must be at least KES 1''))"
    by (simp add: prod_eq_iff)
  from one a r d low' none show ?thesis
    by (simp add: floor_five_halves)
qed

text \<open>
  C8 as stated fails: an amount that is not an integer is not refused. 1.5 is accepted
  and sent as 1.
\<close>

theorem fractional_amount_sent_truncated:
  "map Amount (pushed (fst (snd (initiate_stk_push std cfg0 net0 0 new_service
      (JStr ''0712345678'') (JFloat (Fin (3 / 2))) (JStr ''POS Payment'') ''Goods/Services'')))) = [1] \<and>
   snd (snd (initiate_stk_push std cfg0 net0 0 new_service
      (JStr ''0712345678'') (JFloat (Fin (3 / 2))) (JStr ''POS Payment'') ''Goods/Services'')) =
     StkAccepted (JStr ''ws_1'') (JStr ''m_1'') (JStr ''Success. Request accepted for processing'')
       (JStr ''0'') (JStr ''Success. Request accepted for processing'')"
  by (simp add: push_eval_defs floor_three_halves)

subsection \<open>Phone normalisation\<close>

text \<open>
  The three shapes the specification names are normalised as it says, and its four
  examples hold.
\<close>

lemma format_phone_number_leading_zero:
  "filter py_isdigit (py_str lib raw) = CHR ''0'' # rest \<Longrightarrow>
   format_phone_number lib raw = Inr (''254'' @ rest)"
  by (simp add: format_phone_number_def startswith_def)

lemma format_phone_number_canonical:
  "filter py_isdigit (py_str lib raw) = ''254'' @ rest \<Longrightarrow>
   format_phone_number lib raw = Inr (''254'' @ rest)"
  by (simp add: format_phone_number_def startswith_def)

lemma format_phone_number_subscriber:
  "filter py_isdigit (py_str lib raw) = CHR ''7'' # rest \<Longrightarrow> length rest = 8 \<Longrightarrow>
   format_phone_number lib raw = Inr (''2547'' @ rest)"
  by (simp add: format_phone_number_def startswith_def)

lemma format_phone_number_examples:
  "format_phone_number lib (JStr ''0712345678'') = Inr ''254712345678''"
  "format_phone_number lib (JStr ''254712345678'') = Inr ''254712345678''"
  "format_phone_number lib (JStr ''712345678'') = Inr ''254712345678''"
  "format_phone_number lib (JStr ''12345'') = Inl (ValueError ''Invalid phone number format: 12345'')"
  by (simp_all add: format_phone_number_def startswith_def py_isdigit_def py_str_def)

text \<open>
  C5. The claim that every other shape is refused fails on the code: the branches for a
  leading 0 and for a leading 254 do not check the length, so the three digits 012 are
  accepted and give 25412, which is not a number in the format the function documents.
\<close>

theorem format_phone_number_accepts_short_number:
  "format_phone_number lib (JStr ''012'') = Inr ''25412''"
  by (simp add: format_phone_number_def startswith_def py_isdigit_def py_str_def)

subsection \<open>Stock movements\<close>

text \<open>
  \<^verbatim>\<open>remove_stock\<close> records a movement with the quantity and the counts before and after;
  \<^verbatim>\<open>checkout\<close> never adds a movement. A checkout whose \<^verbatim>\<open>payment_method\<close> is
  \<^verbatim>\<open>null\<close> fails when the sale is created, before any stock is touched.
\<close>

lemma remove_stock_logs:
  assumes "remove_stock self q rsn user st = Inr (n, st')"
  shows "q \<le> stock self \<and> n = stock self - q \<and>
         movements st' = movements st @
           [\<lparr>mv_product = product_id self, movement_type = ''out'', quantity = q,
             previous_quantity = stock self, new_quantity = stock self - q,
             reason = rsn, created_by = user\<rparr>]"
  using assms by (auto simp: remove_stock_def Let_def split: if_splits)

lemma checkout_keeps_movements:
  "movements (snd (checkout lib req cart items st)) = movements st"
  by (auto simp: checkout_def Let_def split: raw_body.splits sum.splits prod.splits option.splits)

lemma checkout_null_payment_method:
  "checkout lib \<lparr>req_method = ''POST'', req_body = Parsed (JObj [(''payment_method'', JNull)])\<rparr>
     cart items st = (Inl IntegrityError, st)"
  by (simp add: checkout_def sale_create_def db_text_def py_get_def)

text \<open>
  C9. The invariant fails on the checkout path: selling two units of a product with five
  in stock leaves three in stock and no movement entry.
\<close>

theorem checkout_decrements_without_movement:
  "map stock (products shop0) = [5] \<and>
   fst (checkout std checkout_request 7 [sold_item] shop0) = Inr (CheckoutDone 1 20) \<and>
   map stock (products (snd (checkout std checkout_request 7 [sold_item] shop0))) = [3] \<and>
   movements (snd (checkout std checkout_request 7 [sold_item] shop0)) = []"
  by (simp add: checkout_def sale_create_def db_text_def py_str_def std_def
      declared_sale_columns_def shop0_def sold_item_def checkout_request_def py_get_def
      cart_total_def product_save_def Let_def)

subsection \<open>Initiation\<close>

lemma fold_max_ge: "(a::nat) \<le> fold max xs a"
  by (induction xs arbitrary: a) (auto intro: order_trans [OF max.cobounded2])

lemma fold_max_mem: "(x::nat) \<in> set xs \<Longrightarrow> x \<le> fold max xs a"
proof (induction xs arbitrary: a)
  case Nil
  then show ?case by simp
next
  case (Cons y ys)
  show ?case
  proof (cases "x = y")
    case True
    have "y \<le> max y a" by simp
    also have "\<dots> \<le> fold max ys (max y a)" by (rule fold_max_ge)
    finally show ?thesis using True by simp
  next
    case False
    with Cons.prems have "x \<in> set ys" by simp
    then show ?thesis using Cons.IH by simp
  qed
qed

lemma fresh_pk_gt: "r \<in> set tbl \<Longrightarrow> pk r < fresh_pk tbl"
proof -
  assume "r \<in> set tbl"
  then have "pk r \<in> set (map pk tbl)" by simp
  then have "pk r \<le> fold max (map pk tbl) 0" by (rule fold_max_mem)
  then show ?thesis by (simp add: fresh_pk_def)
qed

lemma payment_create_InrD:
  assumes "payment_create lib now phone amt cid mid tbl = Inr (p, tbl')"
  shows "\<exists>n. tbl' = tbl @ [p\<lparr>amount := DecimalValue n\<rparr>]" and "pk p = fresh_pk tbl"
    and "phone_number p = phone" and "status p = ''pending''"
    and "amount p = FloatValue amt" and "sale p = None"
  using assms
  by (auto simp: payment_create_def Let_def split: sum.splits option.splits if_splits)

lemma save_new_row:
  assumes "pk p = fresh_pk tbl"
    and "payment_save lib now q (tbl @ [p0]) = Inr tbl'"
    and "pk q = pk p" and "pk p0 = pk p"
  shows "\<exists>w. db_prep_save lib now q = Inr w \<and> tbl' = tbl @ [w]"
proof -
  from assms(2) obtain w where w: "db_prep_save lib now q = Inr w"
    and t: "tbl' = replace_row q w (tbl @ [p0])"
    unfolding payment_save_Inr_iff by blast
  have ne: "pk r \<noteq> pk p" if "r \<in> set tbl" for r
    using fresh_pk_gt [OF that] assms(1) by simp
  have "map (\<lambda>r. if pk r = pk p then w else r) tbl = tbl"
    by (rule map_idI) (simp add: ne)
  with t assms(3,4) have "tbl' = tbl @ [w]"
    by (simp add: replace_row_def)
  with w show ?thesis by blast
qed

lemma link_sale_InrD:
  assumes l: "link_sale lib now cart_id p st = Inr st2"
    and t: "payments st = tbl @ [p0]" and k: "pk p = fresh_pk tbl"
    and p0: "pk p0 = pk p" "phone_number p0 = phone_number p" "status p0 = status p"
  shows "\<exists>p'. payments st2 = tbl @ [p'] \<and> phone_number p' = phone_number p \<and>
              status p' = status p \<and> pk p' = pk p"
proof (cases "st2 = st")
  case True
  with t p0 show ?thesis by simp
next
  case False
  with l have "\<exists>(s::sale_row) tbl'.
      payment_save lib now (p\<lparr>sale := Some (sale_id s)\<rparr>) (payments st) = Inr tbl' \<and>
      st2 = st\<lparr>payments := tbl'\<rparr>"
    by (auto simp: link_sale_def split: sum.splits if_splits option.splits)
  then obtain s :: sale_row and tbl' where
    sv: "payment_save lib now (p\<lparr>sale := Some (sale_id s)\<rparr>) (payments st) = Inr tbl'"
    and st2: "st2 = st\<lparr>payments := tbl'\<rparr>"
    by blast
  have "\<exists>w. db_prep_save lib now (p\<lparr>sale := Some (sale_id s)\<rparr>) = Inr w \<and> tbl' = tbl @ [w]"
    using k sv [unfolded t] by (rule save_new_row) (simp_all add: p0)
  then obtain w where w: "db_prep_save lib now (p\<lparr>sale := Some (sale_id s)\<rparr>) = Inr w"
    and t': "tbl' = tbl @ [w]" by blast
  note kp = db_prep_save_keeps [OF w]
  from st2 t' kp(1,3,9) show ?thesis by simp
qed


lemma read_push_response_accepted:
  "read_push_response data = Inr (StkAccepted c m g k d) \<Longrightarrow>
   py_get data ''ResponseCode'' JNull = Inr (JStr ''0'')"
  by (auto simp: read_push_response_def split: sum.splits if_splits)

lemma initiate_stk_push_accepted:
  assumes run: "initiate_stk_push lib cfg net now svc phone amt reference description =
                  (svc', calls, StkAccepted c m g k d)"
  shows "\<exists>n fp pl. stk_validate lib phone amt = Inr (n, fp) \<and> pushed calls = [pl] \<and>
           PartyA pl = fp \<and> PhoneNumber pl = fp \<and> accepted_by net pl"
proof (cases "stk_validate lib phone amt")
  case (Inl e)
  from initiate_stk_push_invalid [OF Inl, of cfg net now svc reference description] run
  show ?thesis by simp
next
  case (Inr v)
  obtain n fp where ok: "stk_validate lib phone amt = Inr (n, fp)"
    using Inr by (cases v) simp
  from initiate_stk_push_valid [OF ok run] obtain r12 where
    p: "pushed calls = [build_payload lib cfg net n fp r12 description]"
    and o: "case push_outcome net (build_payload lib cfg net n fp r12 description) of
              Inl e \<Rightarrow> StkAccepted c m g k d = StkFailed e
            | Inr data \<Rightarrow> (case read_push_response data of
                             Inl e \<Rightarrow> StkAccepted c m g k d = StkFailed e
                           | Inr res \<Rightarrow> StkAccepted c m g k d = res)"
    by auto
  from o have "accepted_by net (build_payload lib cfg net n fp r12 description)"
    by (auto simp: accepted_by_def split: sum.splits dest: read_push_response_accepted)
  with ok p show ?thesis by simp
qed

lemma initiate_push_refused:
  assumes run: "initiate_push lib cfg net now phone amt cart_id reference st = (resp, st', calls)"
    and s: "initiate_stk_push lib cfg net now new_service (JStr phone) (JFloat amt)
              (view_reference lib cart_id reference) ''Payment for goods/services'' = (svc, calls0, result)"
    and n: "\<And>c m g k d. result \<noteq> StkAccepted c m g k d"
  shows "calls = calls0 \<and> resp = PushFailed result \<and> st' = st"
proof (cases result)
  case (StkAccepted c m g k d)
  with n show ?thesis by blast
next
  case (StkDeclined e k)
  with run s show ?thesis by (auto simp: initiate_push_def)
next
  case (StkFailed e)
  with run s show ?thesis by (auto simp: initiate_push_def)
qed

lemma initiate_push_accepted:
  assumes run: "initiate_push lib cfg net now phone amt cart_id reference st = (resp, st', calls)"
    and s: "initiate_stk_push lib cfg net now new_service (JStr phone) (JFloat amt)
              (view_reference lib cart_id reference) ''Payment for goods/services'' =
              (svc, calls0, StkAccepted c m g k d)"
  shows "calls = calls0 \<and>
         ((\<exists>e. resp = ServerError e \<and> st' = st) \<or>
          (\<exists>p. payments st' = payments st @ [p] \<and> phone_number p = phone \<and>
               status p = ''pending'' \<and>
               (resp = Initiated c g (pk p) \<or> (\<exists>e. resp = ServerError e))))"
proof (cases "payment_create lib now phone amt c m (payments st)")
  case (Inl e)
  with run s have "calls = calls0" "resp = ServerError e" "st' = st"
    by (simp_all add: initiate_push_def)
  then show ?thesis by simp
next
  case (Inr v)
  obtain p tbl where v: "v = (p, tbl)" by (cases v)
  note cr = payment_create_InrD [OF Inr [unfolded v]]
  from cr(1) obtain n where tbl: "tbl = payments st @ [p\<lparr>amount := DecimalValue n\<rparr>]"
    by blast
  let ?st1 = "st\<lparr>payments := tbl\<rparr>"
  show ?thesis
  proof (cases "py_truthy cart_id")
    case False
    with run s Inr v have "calls = calls0" "resp = Initiated c g (pk p)" "st' = ?st1"
      by (simp_all add: initiate_push_def)
    with cr(3,4) tbl show ?thesis by simp
  next
    case True
    show ?thesis
    proof (cases "link_sale lib now cart_id p ?st1")
      case (Inl e)
      with run s Inr v True have "calls = calls0" "resp = ServerError e" "st' = ?st1"
        by (simp_all add: initiate_push_def)
      with cr(3,4) tbl show ?thesis by simp
    next
      case l: (Inr st2)
      have "payments ?st1 = payments st @ [p\<lparr>amount := DecimalValue n\<rparr>]" using tbl by simp
      from link_sale_InrD [OF l this cr(2)] obtain p' where
        p': "payments st2 = payments st @ [p']" "phone_number p' = phone_number p"
        "status p' = status p" "pk p' = pk p" by auto
      from run s Inr v True l have "calls = calls0" "resp = Initiated c g (pk p)" "st' = st2"
        by (simp_all add: initiate_push_def)
      with cr(3,4) p' show ?thesis by simp
    qed
  qed
qed


lemma py_float_JFloat [simp]: "py_float lib (JFloat f) = Inr f"
  by (simp add: py_float_def)

lemma initiate_push_invalid:
  "stk_validate lib (JStr phone) (JFloat amt) = Inl e \<Longrightarrow>
   initiate_push lib cfg net now phone amt cart_id reference st = (PushFailed (StkFailed e), st, [])"
  by (simp add: initiate_push_def initiate_stk_push_invalid)

lemma stk_validate_view:
  "stk_validate lib (JStr phone) (JFloat f) = Inr (n, fp) \<longleftrightarrow>
     py_int f = Inr n \<and> 1 \<le> n \<and> format_phone_number lib (JStr phone) = Inr fp"
  by (auto simp: stk_validate_Inr_iff)

lemma init_fields_SomeD:
  "init_fields req = Some (ph, a) \<Longrightarrow>
   \<exists>kvs. req_method req = ''POST'' \<and> req_body req = Parsed (JObj kvs) \<and>
         ph = (case map_of kvs ''phone_number'' of Some v \<Rightarrow> v | None \<Rightarrow> JStr []) \<and>
         a = (case map_of kvs ''amount'' of Some v \<Rightarrow> v | None \<Rightarrow> JNull)"
  by (auto simp: init_fields_def split: if_splits raw_body.splits json.splits)

lemma init_fields_None:
  assumes "init_fields req = None"
    and "initiate_mpesa_payment lib cfg net now req st = (resp, st', calls)"
  shows "calls = [] \<and> st' = st \<and> \<not> success resp"
proof (cases "req_method req = ''POST''")
  case False
  with assms(2) show ?thesis
    by (auto simp: initiate_mpesa_payment_def success_def)
next
  case True
  show ?thesis
  proof (cases "req_body req")
    case Undecodable
    with True assms(2) show ?thesis
      by (auto simp: initiate_mpesa_payment_def success_def)
  next
    case NotJson
    with True assms(2) show ?thesis
      by (auto simp: initiate_mpesa_payment_def success_def)
  next
    case (Parsed data)
    with True assms(1) have "\<not> is_object data"
      by (cases data) (simp_all add: init_fields_def is_object_def)
    then have "py_get data ''phone_number'' (JStr []) = Inl AttributeError"
      by (cases data) (simp_all add: py_get_def is_object_def)
    with True Parsed assms(2) show ?thesis
      by (auto simp: initiate_mpesa_payment_def initiate_post_def success_def)
  qed
qed

lemma initiate_object:
  assumes "req_method req = ''POST''" and "req_body req = Parsed (JObj kvs)"
  shows "initiate_mpesa_payment lib cfg net now req st =
     (case (case map_of kvs ''phone_number'' of Some v \<Rightarrow> v | None \<Rightarrow> JStr []) of
        JStr raw \<Rightarrow>
          (if py_strip raw = [] then (PhoneRequired, st, [])
           else if \<not> py_truthy (case map_of kvs ''amount'' of Some v \<Rightarrow> v | None \<Rightarrow> JNull)
           then (AmountRequired, st, [])
           else (case py_float lib (case map_of kvs ''amount'' of Some v \<Rightarrow> v | None \<Rightarrow> JNull) of
                   Inl (ValueError m) \<Rightarrow> (AmountNotPositive, st, [])
                 | Inl TypeError \<Rightarrow> (AmountNotPositive, st, [])
                 | Inl e \<Rightarrow> (ServerError e, st, [])
                 | Inr f \<Rightarrow>
                     (if float_le_zero f then (AmountNotPositive, st, [])
                      else initiate_push lib cfg net now (py_strip raw) f
                             (case map_of kvs ''cart_id'' of Some v \<Rightarrow> v | None \<Rightarrow> JNull)
                             (case map_of kvs ''reference'' of Some v \<Rightarrow> v | None \<Rightarrow> JStr ''POS Payment'')
                             st)))
      | _ \<Rightarrow> (ServerError AttributeError, st, []))"
  using assms
  by (simp add: initiate_mpesa_payment_def initiate_post_def py_get_def obj_get_def Let_def
      split: json.splits)


lemma initiate_invalid:
  assumes inv: "\<not> request_valid lib req"
    and run: "initiate_mpesa_payment lib cfg net now req st = (resp, st', calls)"
  shows "calls = [] \<and> st' = st \<and> \<not> success resp"
proof (cases "init_fields req")
  case None
  then show ?thesis using run by (rule init_fields_None)
next
  case (Some v)
  obtain ph a where v: "v = (ph, a)" by (cases v)
  from init_fields_SomeD [OF Some [unfolded v]] obtain kvs where
    m: "req_method req = ''POST''" and b: "req_body req = Parsed (JObj kvs)"
    and ph: "ph = (case map_of kvs ''phone_number'' of Some v \<Rightarrow> v | None \<Rightarrow> JStr [])"
    and a: "a = (case map_of kvs ''amount'' of Some v \<Rightarrow> v | None \<Rightarrow> JNull)"
    by blast
  note eq = initiate_object [OF m b, of lib cfg net now st, folded ph a]
  from inv Some v have bad: "\<not> phone_valid lib ph \<or> \<not> amount_valid lib a"
    by (simp add: request_valid_def)
  show ?thesis
  proof (cases ph)
    case (JStr raw)
    show ?thesis
    proof (cases "py_strip raw = [] \<or> \<not> py_truthy a")
      case True
      with run eq JStr show ?thesis
        by (auto simp: success_def split: if_splits)
    next
      case ok1: False
      show ?thesis
      proof (cases "py_float lib a")
        case (Inl e)
        with run eq JStr ok1 show ?thesis
          by (auto simp: success_def split: py_error.splits)
      next
        case (Inr f)
        show ?thesis
        proof (cases "float_le_zero f")
          case True
          with run eq JStr ok1 Inr show ?thesis
            by (auto simp: success_def)
        next
          case False
          from bad JStr ok1 Inr False
          have "\<forall>n fp. stk_validate lib (JStr (py_strip raw)) (JFloat f) \<noteq> Inr (n, fp)"
            by (auto simp: stk_validate_view phone_valid_def amount_valid_def split: sum.splits)
          then obtain e where "stk_validate lib (JStr (py_strip raw)) (JFloat f) = Inl e"
            by (cases "stk_validate lib (JStr (py_strip raw)) (JFloat f)") auto
          from initiate_push_invalid [OF this] run eq JStr ok1 Inr False show ?thesis
            by (auto simp: success_def)
        qed
      qed
    qed
  qed (use run eq in \<open>auto simp: success_def\<close>)
qed

lemma initiate_valid:
  assumes val: "request_valid lib req"
    and run: "initiate_mpesa_payment lib cfg net now req st = (resp, st', calls)"
  shows "\<exists>raw a f n fp cart_id reference.
           init_fields req = Some (JStr raw, a) \<and> py_float lib a = Inr f \<and>
           stk_validate lib (JStr (py_strip raw)) (JFloat f) = Inr (n, fp) \<and>
           format_phone_number lib (JStr (py_strip raw)) = Inr fp \<and>
           initiate_push lib cfg net now (py_strip raw) f cart_id reference st = (resp, st', calls)"
proof -
  from val obtain ph a where f: "init_fields req = Some (ph, a)"
    and pv: "phone_valid lib ph" and av: "amount_valid lib a"
    by (auto simp: request_valid_def split: option.splits)
  from pv obtain raw fp where ph: "ph = JStr raw" and ne: "py_strip raw \<noteq> []"
    and fp: "format_phone_number lib (JStr (py_strip raw)) = Inr fp"
    by (auto simp: phone_valid_def split: json.splits sum.splits)
  from av obtain fl n where tr: "py_truthy a" and fl: "py_float lib a = Inr fl"
    and pos: "\<not> float_le_zero fl" and n: "py_int fl = Inr n" "1 \<le> n"
    by (auto simp: amount_valid_def split: sum.splits)
  from init_fields_SomeD [OF f] obtain kvs where
    m: "req_method req = ''POST''" and b: "req_body req = Parsed (JObj kvs)"
    and ph': "ph = (case map_of kvs ''phone_number'' of Some v \<Rightarrow> v | None \<Rightarrow> JStr [])"
    and a': "a = (case map_of kvs ''amount'' of Some v \<Rightarrow> v | None \<Rightarrow> JNull)"
    by blast
  note eq = initiate_object [OF m b, of lib cfg net now st, folded ph' a']
  have "initiate_push lib cfg net now (py_strip raw) fl
          (case map_of kvs ''cart_id'' of Some v \<Rightarrow> v | None \<Rightarrow> JNull)
          (case map_of kvs ''reference'' of Some v \<Rightarrow> v | None \<Rightarrow> JStr ''POS Payment'') st
        = (resp, st', calls)"
    using run eq ph ne tr fl pos by simp
  moreover have "stk_validate lib (JStr (py_strip raw)) (JFloat fl) = Inr (n, fp)"
    using n fp by (simp add: stk_validate_view)
  ultimately show ?thesis
    using f ph fl fp by blast
qed


lemmas view_eval_defs =
  initiate_mpesa_payment_def initiate_post_def initiate_push_def view_reference_def
  initiate_request_def store0_def payment_create_def fresh_pk_def db_text_def py_truthy_def
  py_strip_def py_isspace_def float_le_zero_def declared_columns_def decimal10_500

lemma initiate_eval:
  "initiate_mpesa_payment std cfg0 net0 0 (initiate_request ''0712345678'' (JInt 500)) store0 =
     (Initiated (JStr ''ws_1'') (JStr ''Success. Request accepted for processing'') 1,
      store0\<lparr>payments := [pending_row]\<rparr>,
      [TokenRequest,
       StkPushRequest (JStr ''token'')
         (build_payload std cfg0 net0 500 ''254712345678'' (JStr ''POS Payment'')
            ''Payment for goods/services'')])"
  by (simp add: view_eval_defs push_eval_defs pending_row_def)

lemma initiate_eval_bad_phone:
  "initiate_mpesa_payment std cfg0 net0 0 (initiate_request ''12345'' (JInt 500)) store0 =
     (PushFailed (StkFailed (ValueError ''Invalid phone number format: 12345'')), store0, [])"
  by (simp add: view_eval_defs push_eval_defs)

lemma bad_phone_invalid: "\<not> request_valid std (initiate_request ''12345'' (JInt 500))"
  by (simp add: request_valid_def init_fields_def initiate_request_def phone_valid_def
      format_phone_number_def startswith_def py_isdigit_def py_str_def py_strip_def py_isspace_def)

text \<open>
  C4. For every call of the initiation view: when the phone or the amount fails
  validation (or the request carries none), no network call is made, the store is
  unchanged and the answer reports failure; when a push request was sent and not
  accepted, the store is unchanged and the answer reports failure; and when the payment
  table changed, exactly one push was sent, it was accepted, and the change is one new
  row with status \<open>pending\<close>.
\<close>

theorem initiation_atomicity:
  assumes run: "initiate_mpesa_payment lib cfg net now req st = (resp, st', calls)"
  shows "(\<not> request_valid lib req \<longrightarrow> calls = [] \<and> st' = st \<and> \<not> success resp) \<and>
         (\<forall>pl\<in>set (pushed calls). \<not> accepted_by net pl \<longrightarrow> st' = st \<and> \<not> success resp) \<and>
         (payments st' \<noteq> payments st \<longrightarrow>
            (\<exists>pl p. pushed calls = [pl] \<and> accepted_by net pl \<and>
                    payments st' = payments st @ [p] \<and> status p = ''pending''))"
proof (cases "request_valid lib req")
  case False
  from initiate_invalid [OF False run] show ?thesis by simp
next
  case True
  from initiate_valid [OF True run] obtain raw f cart_id reference where
    push: "initiate_push lib cfg net now (py_strip raw) f cart_id reference st = (resp, st', calls)"
    by blast
  obtain svc calls0 result where
    s: "initiate_stk_push lib cfg net now new_service (JStr (py_strip raw)) (JFloat f)
          (view_reference lib cart_id reference) ''Payment for goods/services'' = (svc, calls0, result)"
    by (cases "initiate_stk_push lib cfg net now new_service (JStr (py_strip raw)) (JFloat f)
          (view_reference lib cart_id reference) ''Payment for goods/services''")
  show ?thesis
  proof (cases "\<exists>c m g k d. result = StkAccepted c m g k d")
    case False
    then have "\<And>c m g k d. result \<noteq> StkAccepted c m g k d" by blast
    from initiate_push_refused [OF push s this]
    have "resp = PushFailed result" "st' = st" by simp_all
    with True show ?thesis by (simp add: success_def)
  next
    case acc: True
    then obtain c m g k d where r: "result = StkAccepted c m g k d" by blast
    from initiate_push_accepted [OF push s [unfolded r]]
    have c: "calls = calls0"
      and o: "(\<exists>e. resp = ServerError e \<and> st' = st) \<or>
          (\<exists>p. payments st' = payments st @ [p] \<and> phone_number p = py_strip raw \<and>
               status p = ''pending'' \<and>
               (resp = Initiated c g (pk p) \<or> (\<exists>e. resp = ServerError e)))"
      by simp_all
    from initiate_stk_push_accepted [OF s [unfolded r]] obtain pl where
      pl: "pushed calls0 = [pl]" "accepted_by net pl" by blast
    have third: "payments st' \<noteq> payments st \<longrightarrow>
            (\<exists>pl p. pushed calls = [pl] \<and> accepted_by net pl \<and>
                    payments st' = payments st @ [p] \<and> status p = ''pending'')"
      using o c pl by auto
    have second: "\<forall>pl\<in>set (pushed calls). \<not> accepted_by net pl \<longrightarrow> st' = st \<and> \<not> success resp"
      using c pl by simp
    from True second third show ?thesis by simp
  qed
qed

theorem initiation_atomicity_witness:
  "\<not> request_valid std (initiate_request ''12345'' (JInt 500)) \<and>
   snd (initiate_mpesa_payment std cfg0 net0 0 (initiate_request ''12345'' (JInt 500)) store0)
     = (store0, []) \<and>
   payments (fst (snd (initiate_mpesa_payment std cfg0 net0 0
                         (initiate_request ''0712345678'' (JInt 500)) store0))) = [pending_row] \<and>
   (\<exists>pl. pushed (snd (snd (initiate_mpesa_payment std cfg0 net0 0
                         (initiate_request ''0712345678'' (JInt 500)) store0))) = [pl] \<and>
         accepted_by net0 pl) \<and>
   status pending_row = ''pending''"
proof -
  from initiation_atomicity [OF initiate_eval_bad_phone] bad_phone_invalid
  have a: "snd (initiate_mpesa_payment std cfg0 net0 0 (initiate_request ''12345'' (JInt 500)) store0)
             = (store0, [])"
    by (simp add: initiate_eval_bad_phone)
  have ne: "payments (store0\<lparr>payments := [pending_row]\<rparr>) \<noteq> payments store0"
    by (simp add: store0_def)
  from initiation_atomicity [OF initiate_eval] ne
  have "\<exists>pl p. pushed [TokenRequest,
       StkPushRequest (JStr ''token'')
         (build_payload std cfg0 net0 500 ''254712345678'' (JStr ''POS Payment'')
            ''Payment for goods/services'')] = [pl] \<and> accepted_by net0 pl \<and>
         payments (store0\<lparr>payments := [pending_row]\<rparr>) = payments store0 @ [p] \<and>
         status p = ''pending''"
    by blast
  then have b: "\<exists>pl. pushed (snd (snd (initiate_mpesa_payment std cfg0 net0 0
                         (initiate_request ''0712345678'' (JInt 500)) store0))) = [pl] \<and>
         accepted_by net0 pl"
    unfolding initiate_eval by auto
  have c: "status pending_row = ''pending''"
    by (simp add: pending_row_def)
  from a b c bad_phone_invalid show ?thesis
    by (simp add: initiate_eval)
qed

text \<open>
  C6 (as amended). After a successful initiation the new row holds the phone string the
  caller sent, stripped of surrounding whitespace; the normalised form is what the push
  request carries as PartyA and PhoneNumber.
\<close>

theorem stored_phone_is_stripped_input:
  assumes run: "initiate_mpesa_payment lib cfg net now req st = (Initiated cid msg i, st', calls)"
  shows "\<exists>raw a fp pl p.
           init_fields req = Some (JStr raw, a) \<and>
           format_phone_number lib (JStr (py_strip raw)) = Inr fp \<and>
           pushed calls = [pl] \<and> PartyA pl = fp \<and> PhoneNumber pl = fp \<and>
           payments st' = payments st @ [p] \<and> pk p = i \<and> phone_number p = py_strip raw"
proof -
  have val: "request_valid lib req"
  proof (rule ccontr)
    assume "\<not> request_valid lib req"
    from initiate_invalid [OF this run] show False by (simp add: success_def)
  qed
  from initiate_valid [OF val run] obtain raw a f n fp cart_id reference where
    fields: "init_fields req = Some (JStr raw, a)"
    and v: "stk_validate lib (JStr (py_strip raw)) (JFloat f) = Inr (n, fp)"
    and fp: "format_phone_number lib (JStr (py_strip raw)) = Inr fp"
    and push: "initiate_push lib cfg net now (py_strip raw) f cart_id reference st =
                 (Initiated cid msg i, st', calls)"
    by blast
  obtain svc calls0 result where
    s: "initiate_stk_push lib cfg net now new_service (JStr (py_strip raw)) (JFloat f)
          (view_reference lib cart_id reference) ''Payment for goods/services'' = (svc, calls0, result)"
    by (cases "initiate_stk_push lib cfg net now new_service (JStr (py_strip raw)) (JFloat f)
          (view_reference lib cart_id reference) ''Payment for goods/services''")
  have "\<exists>c m g k d. result = StkAccepted c m g k d"
  proof (rule ccontr)
    assume "\<not> (\<exists>c m g k d. result = StkAccepted c m g k d)"
    then have "\<And>c m g k d. result \<noteq> StkAccepted c m g k d" by blast
    from initiate_push_refused [OF push s this] show False by simp
  qed
  then obtain c m g k d where r: "result = StkAccepted c m g k d" by blast
  from initiate_push_accepted [OF push s [unfolded r]]
  obtain p where c: "calls = calls0"
    and p: "payments st' = payments st @ [p]" "phone_number p = py_strip raw" "pk p = i"
    by auto
  from initiate_stk_push_accepted [OF s [unfolded r]] v obtain pl where
    pl: "pushed calls0 = [pl]" "PartyA pl = fp" "PhoneNumber pl = fp" by auto
  from fields fp c p pl show ?thesis by blast
qed


theorem stored_phone_is_stripped_input_witness:
  "initiate_mpesa_payment std cfg0 net0 0 (initiate_request ''0712345678'' (JInt 500)) store0 =
     (Initiated (JStr ''ws_1'') (JStr ''Success. Request accepted for processing'') 1,
      store0\<lparr>payments := [pending_row]\<rparr>,
      [TokenRequest,
       StkPushRequest (JStr ''token'')
         (build_payload std cfg0 net0 500 ''254712345678'' (JStr ''POS Payment'')
            ''Payment for goods/services'')]) \<and>
   (\<exists>raw a fp pl p.
      init_fields (initiate_request ''0712345678'' (JInt 500)) = Some (JStr raw, a) \<and>
      format_phone_number std (JStr (py_strip raw)) = Inr fp \<and>
      pushed [TokenRequest,
              StkPushRequest (JStr ''token'')
                (build_payload std cfg0 net0 500 ''254712345678'' (JStr ''POS Payment'')
                   ''Payment for goods/services'')] = [pl] \<and>
      PartyA pl = fp \<and> PhoneNumber pl = fp \<and>
      payments (store0\<lparr>payments := [pending_row]\<rparr>) = payments store0 @ [p] \<and>
      pk p = 1 \<and> phone_number p = py_strip raw)"
  using initiate_eval stored_phone_is_stripped_input [OF initiate_eval] by (rule conjI)

text \<open>
  C6 as stated fails: initiating with 0712345678 stores 0712345678, while the push request
  carries 254712345678.
\<close>

theorem stored_phone_is_not_normalized:
  "success (fst (initiate_mpesa_payment std cfg0 net0 0
                   (initiate_request ''0712345678'' (JInt 500)) store0)) \<and>
   map phone_number (payments (fst (snd (initiate_mpesa_payment std cfg0 net0 0
                   (initiate_request ''0712345678'' (JInt 500)) store0)))) = [''0712345678''] \<and>
   map PartyA (pushed (snd (snd (initiate_mpesa_payment std cfg0 net0 0
                   (initiate_request ''0712345678'' (JInt 500)) store0)))) = [''254712345678''] \<and>
   format_phone_number std (JStr ''0712345678'') = Inr ''254712345678''"
  by (simp add: initiate_eval success_def pending_row_def format_phone_number_examples)

end
